theory Spec2Isabelle
  imports Main
begin

section \<open>Python strings\<close>

text \<open>
  A Python \<open>str\<close> is a sequence of Unicode code points; the words of this program are
  English and Russian, so a string is modelled as the list of its code points
  (\<open>ord\<close> of each character). \<open>len\<close> is \<open>length\<close>, \<open>==\<close> is equality of lists.
\<close>

type_synonym pystr = "nat list"

text \<open>
  \<open>str.isspace\<close>: the code points Python treats as whitespace, which \<open>str.strip()\<close>
  removes from both ends.
\<close>

definition whitespace_code_points :: "nat list" where
  "whitespace_code_points =
     [9, 10, 11, 12, 13, 28, 29, 30, 31, 32, 133, 160, 5760,
      8192, 8193, 8194, 8195, 8196, 8197, 8198, 8199, 8200, 8201, 8202,
      8232, 8233, 8239, 8287, 12288]"

definition isspace :: "nat \<Rightarrow> bool" where
  "isspace c = (c \<in> set whitespace_code_points)"

definition py_lstrip :: "pystr \<Rightarrow> pystr" where
  "py_lstrip s = dropWhile isspace s"

definition py_rstrip :: "pystr \<Rightarrow> pystr" where
  "py_rstrip s = rev (dropWhile isspace (rev s))"

definition py_strip :: "pystr \<Rightarrow> pystr" where
  "py_strip s = py_rstrip (py_lstrip s)"

text \<open>
  \<open>str.lower()\<close> is the lowercasing of the Unicode standard: it depends on the whole
  string (a capital sigma becomes a final or a medial small sigma by its neighbours) and
  may change the length (U+0130 becomes U+0069 U+0307). It is not modelled: every
  definition below whose source calls \<open>.lower()\<close> takes the function as its first
  argument \<open>lower\<close>, and a property of \<open>str.lower()\<close> that a proof needs is a hypothesis
  of its theorem.
\<close>

text \<open>
  \<open>s.split(sep)\<close> for a one-character separator: the pieces between the separators,
  empty pieces kept, so that the empty string splits into one empty piece.
\<close>

fun py_split :: "nat \<Rightarrow> pystr \<Rightarrow> pystr list" where
  "py_split sep [] = [[]]"
| "py_split sep (c # cs) =
     (if c = sep then [] # py_split sep cs
      else (case py_split sep cs of
              [] \<Rightarrow> [[c]]
            | p # ps \<Rightarrow> (c # p) # ps))"

section \<open>Answer normalization (learning_test.py)\<close>

text \<open>
  \<open>ALLOWED_TYPOS\<close>, in the order of the source. Each key and value is the list of code
  points of the word of the source; the comments give the entry in transliteration.
\<close>

definition ALLOWED_TYPOS :: "(pystr \<times> pystr) list" where
  "ALLOWED_TYPOS =
     [ \<comment> \<open>prstite : prostite\<close>
       ([1087, 1088, 1089, 1090, 1080, 1090, 1077],
        [1087, 1088, 1086, 1089, 1090, 1080, 1090, 1077]),
       \<comment> \<open>izvnite : izvinite\<close>
       ([1080, 1079, 1074, 1085, 1080, 1090, 1077],
        [1080, 1079, 1074, 1080, 1085, 1080, 1090, 1077]),
       \<comment> \<open>sori : sorry\<close>
       ([1089, 1086, 1088, 1080], [115, 111, 114, 114, 121]),
       \<comment> \<open>vada : voda\<close>
       ([1074, 1072, 1076, 1072], [1074, 1086, 1076, 1072]),
       \<comment> \<open>vater : water\<close>
       ([1074, 1072, 1090, 1077, 1088], [119, 97, 116, 101, 114]),
       \<comment> \<open>yes (Cyrillic) : yes\<close>
       ([1081, 1077, 1089], [121, 101, 115]),
       \<comment> \<open>nou : no\<close>
       ([1085, 1086, 1091], [110, 111]),
       \<comment> \<open>khello : hello\<close>
       ([1093, 1077, 1083, 1083, 1086], [104, 101, 108, 108, 111]),
       \<comment> \<open>sanks : thanks\<close>
       ([1089, 1072, 1085, 1082, 1089], [116, 104, 97, 110, 107, 115]),
       \<comment> \<open>tkhak yu : thank you\<close>
       ([1090, 1093, 1072, 1082, 32, 1102], [116, 104, 97, 110, 107, 32, 121, 111, 117]) ]"

text \<open>\<open>d.get(key, default)\<close> on a dictionary given by its items.\<close>

definition dict_get :: "('k \<times> 'v) list \<Rightarrow> 'k \<Rightarrow> 'v \<Rightarrow> 'v" where
  "dict_get d k dflt = (case map_of d k of None \<Rightarrow> dflt | Some v \<Rightarrow> v)"

text \<open>
  The normalization of \<open>handle_test_response\<close>:
  \<open>user_answer = user_answer.strip().lower()\<close> and then
  \<open>user_answer = ALLOWED_TYPOS.get(user_answer, user_answer)\<close>.
\<close>

definition normalize_answer ::
  "(pystr \<Rightarrow> pystr) \<Rightarrow> pystr \<Rightarrow> pystr" where
  "normalize_answer lower user_answer =
     (let ua = lower (py_strip user_answer)
      in dict_get ALLOWED_TYPOS ua ua)"

section \<open>Dictionary lookup (translator.py)\<close>

text \<open>
  The dictionary file is read by an XML parser, which is outside the model: the file is
  given as the texts of the \<open>en\<close> and \<open>ru\<close> children of its \<open>entry\<close> elements, in
  document order. A file that is absent is the empty list.
\<close>

type_synonym xml_entries = "(pystr \<times> pystr) list"

text \<open>
  \<open>load_dictionary\<close>: the loop body stores \<open>dictionary[ru] = en\<close> and then
  \<open>dictionary[en] = ru\<close>, so a later entry overwrites an earlier one on the same key.
\<close>

fun load_dictionary_loop ::
  "(pystr \<Rightarrow> pystr) \<Rightarrow> xml_entries \<Rightarrow> (pystr \<rightharpoonup> pystr) \<Rightarrow> (pystr \<rightharpoonup> pystr)" where
  "load_dictionary_loop lower [] dictionary = dictionary"
| "load_dictionary_loop lower ((en_text, ru_text) # entries) dictionary =
     (let en = lower (py_strip en_text);
          ru = lower (py_strip ru_text)
      in load_dictionary_loop lower entries ((dictionary(ru \<mapsto> en))(en \<mapsto> ru)))"

definition load_dictionary ::
  "(pystr \<Rightarrow> pystr) \<Rightarrow> xml_entries \<Rightarrow> (pystr \<rightharpoonup> pystr)" where
  "load_dictionary lower entries = load_dictionary_loop lower entries Map.empty"

definition translate_word ::
  "(pystr \<Rightarrow> pystr) \<Rightarrow> (pystr \<rightharpoonup> pystr) \<Rightarrow> pystr \<Rightarrow> pystr option" where
  "translate_word lower translation_dict word = translation_dict (lower (py_strip word))"

definition is_in_dictionary ::
  "(pystr \<Rightarrow> pystr) \<Rightarrow> (pystr \<rightharpoonup> pystr) \<Rightarrow> pystr \<Rightarrow> bool" where
  "is_in_dictionary lower translation_dict word =
     (translation_dict (lower (py_strip word)) \<noteq> None)"

section \<open>The store (database.py)\<close>

text \<open>
  The tables of \<open>initialize_database\<close>, each as the list of its rows in the order of
  insertion (the order of the serial primary key). Timestamps are not modelled; the order
  of \<open>user_words\<close> by \<open>added_date\<close> is the order of insertion. Integer columns hold
  Python integers. The table \<open>user_progress\<close> is dropped but never created by
  \<open>initialize_database\<close>.
\<close>

record user_word_row =
  uw_user_id :: int
  uw_english_word :: pystr
  uw_russian_translation :: pystr

record test_row =
  t_test_id :: int
  t_user_id :: int
  t_total_questions :: "int option"
  t_correct_answers :: "int option"
  t_incorrect_answers :: "int option"

record test_result_row =
  tr_test_id :: int
  tr_word :: pystr
  tr_correct_answer :: pystr
  tr_user_answer :: pystr
  tr_is_correct :: bool

record leaderboard_row =
  lb_user_id :: int
  lb_total_tests :: int
  lb_total_correct :: int
  lb_total_incorrect :: int

record database =
  tbl_users :: "int list"
  tbl_default_words :: "(pystr \<times> pystr) list"
  tbl_user_words :: "user_word_row list"
  tbl_tests :: "test_row list"
  tbl_test_results :: "test_result_row list"
  tbl_leaderboard :: "leaderboard_row list"
  tests_test_id_seq :: int

text \<open>
  A text value reaches the store encoded in UTF-8. PostgreSQL refuses the character
  U+0000 in a text value, and a lone surrogate (U+D800..U+DFFF), which a Python string
  may hold, cannot be encoded; either makes the statement fail.
\<close>

definition pg_char_ok :: "nat \<Rightarrow> bool" where
  "pg_char_ok c = (c \<noteq> 0 \<and> \<not> (55296 \<le> c \<and> c \<le> 57343))"

text \<open>
  Storing a string into a \<open>VARCHAR(n)\<close> column: a value of at most \<open>n\<close> characters is
  stored as it is; a longer value whose excess characters are all spaces (U+0020) is cut
  to \<open>n\<close> characters; any other longer value, and any value with a character the store
  refuses, makes the statement fail, which every method of \<open>Database\<close> catches (its
  \<open>except\<close> branch).
\<close>

definition pg_varchar :: "nat \<Rightarrow> pystr \<Rightarrow> pystr option" where
  "pg_varchar n s =
     (if \<not> list_all pg_char_ok s then None
      else if length s \<le> n then Some s
      else if list_all (\<lambda>c. c = 32) (drop n s) then Some (take n s)
      else None)"

text \<open>An \<open>INT\<close> column or parameter holds a signed 32-bit integer; a value outside this
  range makes the statement fail.\<close>

definition pg_int4 :: "int \<Rightarrow> bool" where
  "pg_int4 v = (- 2147483648 \<le> v \<and> v \<le> 2147483647)"

text \<open>
  \<open>add_user\<close>: \<open>INSERT ... ON CONFLICT (user_id) DO NOTHING\<close>. Only the key column of
  \<open>users\<close> is modelled.
\<close>

definition db_add_user :: "int \<Rightarrow> database \<Rightarrow> database" where
  "db_add_user user_id db =
     (if user_id \<in> set (tbl_users db) then db
      else db\<lparr>tbl_users := tbl_users db @ [user_id]\<rparr>)"

text \<open>
  \<open>add_user_word\<close>: the row \<open>(user_id, english_word.lower(), russian_translation.lower())\<close>
  is inserted unless a row with the same \<open>(user_id, english_word)\<close> exists
  (\<open>ON CONFLICT DO NOTHING\<close>, status \<open>INSERT 0 0\<close>). The statement fails, and the method
  returns \<open>False\<close>, when a value is not accepted by its \<open>VARCHAR(255)\<close> column or when
  \<open>user_id\<close> is not a row of \<open>users\<close> (the foreign key).
\<close>

definition db_add_user_word ::
  "(pystr \<Rightarrow> pystr) \<Rightarrow> int \<Rightarrow> pystr \<Rightarrow> pystr \<Rightarrow> database \<Rightarrow> bool \<times> database" where
  "db_add_user_word lower user_id english_word russian_translation db =
     (case (pg_varchar 255 (lower english_word),
            pg_varchar 255 (lower russian_translation)) of
        (Some en, Some ru) \<Rightarrow>
          if list_ex (\<lambda>r. uw_user_id r = user_id \<and> uw_english_word r = en) (tbl_user_words db)
          then (False, db)
          else if user_id \<in> set (tbl_users db)
          then (True, db\<lparr>tbl_user_words := tbl_user_words db @
                  [\<lparr>uw_user_id = user_id, uw_english_word = en,
                    uw_russian_translation = ru\<rparr>]\<rparr>)
          else (False, db)
      | _ \<Rightarrow> (False, db))"

text \<open>\<open>get_user_words\<close>: the user's pairs, newest first.\<close>

definition db_get_user_words :: "int \<Rightarrow> database \<Rightarrow> (pystr \<times> pystr) list" where
  "db_get_user_words user_id db =
     rev (map (\<lambda>r. (uw_english_word r, uw_russian_translation r))
            (filter (\<lambda>r. uw_user_id r = user_id) (tbl_user_words db)))"

text \<open>\<open>get_default_words\<close>: \<open>ORDER BY word_id LIMIT $1\<close>, the limit being 12 by default.\<close>

definition db_get_default_words :: "nat \<Rightarrow> database \<Rightarrow> (pystr \<times> pystr) list" where
  "db_get_default_words limit db = take limit (tbl_default_words db)"

text \<open>
  \<open>get_possible_translations\<close>: the translations of \<open>en_word.lower()\<close> in
  \<open>default_words\<close> and in the user's rows of \<open>user_words\<close>, as \<open>list(set(...))\<close>: without
  repetition, in an order Python does not fix (here the order of the rows).
\<close>

definition db_get_possible_translations ::
  "(pystr \<Rightarrow> pystr) \<Rightarrow> pystr \<Rightarrow> int \<Rightarrow> database \<Rightarrow> pystr list" where
  "db_get_possible_translations lower en_word user_id db =
     (let default_rows = map snd (filter (\<lambda>w. fst w = lower en_word) (tbl_default_words db));
          user_rows = map uw_russian_translation
            (filter (\<lambda>r. uw_user_id r = user_id \<and> uw_english_word r = lower en_word)
               (tbl_user_words db))
      in remdups (default_rows @ user_rows))"

text \<open>
  \<open>create_test_session\<close>: the serial column takes the next value of its sequence, also
  when the insert then fails on the foreign key to \<open>users\<close>; the method returns the new
  identifier, or \<open>None\<close> from its \<open>except\<close> branch.
\<close>

definition db_create_test_session :: "int \<Rightarrow> database \<Rightarrow> int option \<times> database" where
  "db_create_test_session user_id db =
     (let test_id = tests_test_id_seq db + 1;
          db1 = db\<lparr>tests_test_id_seq := test_id\<rparr>
      in if user_id \<in> set (tbl_users db)
         then (Some test_id,
               db1\<lparr>tbl_tests := tbl_tests db @
                 [\<lparr>t_test_id = test_id, t_user_id = user_id, t_total_questions = None,
                   t_correct_answers = None, t_incorrect_answers = None\<rparr>]\<rparr>)
         else (None, db1))"

text \<open>
  \<open>add_test_result\<close>: one row of \<open>test_results\<close>. The three text columns are
  \<open>VARCHAR(100)\<close> and \<open>test_id\<close> is an \<open>INT\<close> that references \<open>tests\<close>; when the insert
  fails the method returns \<open>False\<close> and the table is as before.
\<close>

definition db_add_test_result ::
  "int \<Rightarrow> pystr \<Rightarrow> pystr \<Rightarrow> pystr \<Rightarrow> bool \<Rightarrow> database \<Rightarrow> bool \<times> database" where
  "db_add_test_result test_id word correct_answer user_answer is_correct db =
     (case (pg_varchar 100 word, pg_varchar 100 correct_answer, pg_varchar 100 user_answer) of
        (Some w, Some c, Some u) \<Rightarrow>
          if pg_int4 test_id \<and> list_ex (\<lambda>t. t_test_id t = test_id) (tbl_tests db)
          then (True, db\<lparr>tbl_test_results := tbl_test_results db @
                  [\<lparr>tr_test_id = test_id, tr_word = w, tr_correct_answer = c,
                    tr_user_answer = u, tr_is_correct = is_correct\<rparr>]\<rparr>)
          else (False, db)
      | _ \<Rightarrow> (False, db))"

text \<open>
  \<open>update_test_session\<close>: \<open>UPDATE tests SET ... WHERE test_id = $1\<close>. The identifier and
  the three counts are \<open>INT\<close> parameters: when one of them is out of range the statement
  fails, the method returns \<open>False\<close> and the table is as before.
\<close>

definition db_update_test_session :: "int \<Rightarrow> int \<Rightarrow> int \<Rightarrow> int \<Rightarrow> database \<Rightarrow> bool \<times> database" where
  "db_update_test_session test_id questions_answered correct_answers incorrect_answers db =
     (if pg_int4 test_id \<and> pg_int4 questions_answered \<and> pg_int4 correct_answers \<and>
         pg_int4 incorrect_answers
      then (True,
            db\<lparr>tbl_tests :=
              map (\<lambda>t. if t_test_id t = test_id
                       then t\<lparr>t_total_questions := Some questions_answered,
                              t_correct_answers := Some correct_answers,
                              t_incorrect_answers := Some incorrect_answers\<rparr>
                       else t)
                (tbl_tests db)\<rparr>)
      else (False, db))"

text \<open>\<open>get_test_results\<close>: the rows of the session, \<open>ORDER BY id\<close>.\<close>

definition db_get_test_results :: "int \<Rightarrow> database \<Rightarrow> test_result_row list" where
  "db_get_test_results test_id db = filter (\<lambda>r. tr_test_id r = test_id) (tbl_test_results db)"

text \<open>
  \<open>update_leaderboard\<close>: an additive upsert of the user's row; it fails on the foreign
  key, leaving the table as it is, when the user is not a row of \<open>users\<close>.
\<close>

definition db_update_leaderboard :: "int \<Rightarrow> int \<Rightarrow> int \<Rightarrow> database \<Rightarrow> database" where
  "db_update_leaderboard user_id correct incorrect db =
     (if list_ex (\<lambda>r. lb_user_id r = user_id) (tbl_leaderboard db)
      then db\<lparr>tbl_leaderboard :=
             map (\<lambda>r. if lb_user_id r = user_id
                      then r\<lparr>lb_total_tests := lb_total_tests r + 1,
                             lb_total_correct := lb_total_correct r + correct,
                             lb_total_incorrect := lb_total_incorrect r + incorrect\<rparr>
                      else r)
               (tbl_leaderboard db)\<rparr>
      else if user_id \<in> set (tbl_users db)
      then db\<lparr>tbl_leaderboard := tbl_leaderboard db @
             [\<lparr>lb_user_id = user_id, lb_total_tests = 1, lb_total_correct = correct,
               lb_total_incorrect = incorrect\<rparr>]\<rparr>
      else db)"

text \<open>
  \<open>initialize_database\<close> drops every table and creates them anew, empty but for the
  twelve default words, in the order of the source.
\<close>

definition initialize_database :: database where
  "initialize_database =
     \<lparr>tbl_users = [],
      tbl_default_words =
        [ \<comment> \<open>hello, goodbye, thank you\<close>
          ([104, 101, 108, 108, 111], [1087, 1088, 1080, 1074, 1077, 1090]),
          ([103, 111, 111, 100, 98, 121, 101], [1087, 1086, 1082, 1072]),
          ([116, 104, 97, 110, 107, 32, 121, 111, 117],
           [1089, 1087, 1072, 1089, 1080, 1073, 1086]),
          \<comment> \<open>please, yes, no\<close>
          ([112, 108, 101, 97, 115, 101],
           [1087, 1086, 1078, 1072, 1083, 1091, 1081, 1089, 1090, 1072]),
          ([121, 101, 115], [1076, 1072]),
          ([110, 111], [1085, 1077, 1090]),
          \<comment> \<open>sorry, help, water\<close>
          ([115, 111, 114, 114, 121], [1080, 1079, 1074, 1080, 1085, 1080, 1090, 1077]),
          ([104, 101, 108, 112], [1087, 1086, 1084, 1086, 1097, 1100]),
          ([119, 97, 116, 101, 114], [1074, 1086, 1076, 1072]),
          \<comment> \<open>food, time, day\<close>
          ([102, 111, 111, 100], [1077, 1076, 1072]),
          ([116, 105, 109, 101], [1074, 1088, 1077, 1084, 1103]),
          ([100, 97, 121], [1076, 1077, 1085, 1100]) ],
      tbl_user_words = [], tbl_tests = [], tbl_test_results = [], tbl_leaderboard = [],
      tests_test_id_seq = 0\<rparr>"

section \<open>The quiz (learning_test.py)\<close>

text \<open>
  \<open>load_words_from_xml\<close>: the pairs of the dictionary file, trimmed and lowercased, those
  with an empty side left out.
\<close>

definition load_words_from_xml ::
  "(pystr \<Rightarrow> pystr) \<Rightarrow> xml_entries \<Rightarrow> (pystr \<times> pystr) list" where
  "load_words_from_xml lower entries =
     filter (\<lambda>(en_word, ru_word). en_word \<noteq> [] \<and> ru_word \<noteq> [])
       (map (\<lambda>(en_text, ru_text). (lower (py_strip en_text), lower (py_strip ru_text)))
          entries)"

text \<open>
  A Python \<open>dict\<close> keeps its keys in the order of their first insertion; storing under a
  key that is present replaces the value and leaves the key where it is.
\<close>

fun dict_setitem :: "'k \<Rightarrow> 'v \<Rightarrow> ('k \<times> 'v) list \<Rightarrow> ('k \<times> 'v) list" where
  "dict_setitem k v [] = [(k, v)]"
| "dict_setitem k v ((k', v') # d) =
     (if k' = k then (k', v) # d else (k', v') # dict_setitem k v d)"

definition dict_values :: "('k \<times> 'v) list \<Rightarrow> 'v list" where
  "dict_values d = map snd d"

text \<open>
  Line 91 of \<open>start_learning_test\<close>:
  \<open>list({word[0]: word for word in user_words + default_words + xml_words}.values())\<close>.
  \<open>word_dict\<close> is the dictionary comprehension \<open>{word[0]: word for word in ws}\<close>.
\<close>

definition word_dict :: "(pystr \<times> pystr) list \<Rightarrow> (pystr \<times> (pystr \<times> pystr)) list" where
  "word_dict ws = foldl (\<lambda>d word. dict_setitem (fst word) word d) [] ws"

definition all_words ::
  "(pystr \<times> pystr) list \<Rightarrow> (pystr \<times> pystr) list \<Rightarrow> (pystr \<times> pystr) list \<Rightarrow> (pystr \<times> pystr) list" where
  "all_words user_words default_words xml_words =
     dict_values (word_dict (user_words @ default_words @ xml_words))"

text \<open>
  The percentage of \<open>_format_results_message\<close>. Python's \<open>/\<close> on integers raises
  \<open>ZeroDivisionError\<close> on a zero divisor and otherwise gives a float; the float
  operations (the quotient, the product with 100 and \<open>round\<close>) are arguments.
\<close>

datatype py_error = ZeroDivisionError | ValueError

definition py_truediv :: "(int \<Rightarrow> int \<Rightarrow> 'f) \<Rightarrow> int \<Rightarrow> int \<Rightarrow> py_error + 'f" where
  "py_truediv fdiv a b = (if b = 0 then Inl ZeroDivisionError else Inr (fdiv a b))"

definition percentage ::
  "(int \<Rightarrow> int \<Rightarrow> 'f) \<Rightarrow> ('f \<Rightarrow> int \<Rightarrow> 'f) \<Rightarrow> ('f \<Rightarrow> int) \<Rightarrow> int \<Rightarrow> int \<Rightarrow> py_error + int" where
  "percentage fdiv fmul fround questions_answered correct_answers =
     (if questions_answered > 0
      then (case py_truediv fdiv correct_answers questions_answered of
              Inl e \<Rightarrow> Inl e
            | Inr x \<Rightarrow> Inr (fround (fmul x 100)))
      else Inr 0)"

text \<open>
  The conversation state (\<open>FSMContext\<close> data): a dictionary with the keys the quiz
  stores, each absent (\<open>None\<close>) until it is set; \<open>state.clear()\<close> empties it. The start
  time is not modelled.
\<close>

datatype word_kind = WordUser | WordDefault | WordXml

datatype question_kind = en_to_ru | ru_to_en

record test_question =
  tq_question :: pystr
  tq_correct_answer :: pystr
  tq_user_answer :: pystr
  tq_is_correct :: bool

record fsm_data =
  test_id :: "int option"
  test_in_progress :: bool
  questions_answered :: "int option"
  correct_answers :: "int option"
  incorrect_answers :: "int option"
  test_questions :: "test_question list option"
  current_question :: "pystr option"
  test_correct_answer :: "pystr option"
  current_word :: "pystr option"
  word_type :: "word_kind option"
  question_type :: "question_kind option"
  original_ru_word :: "pystr option"

definition state_clear :: fsm_data where
  "state_clear =
     \<lparr>test_id = None, test_in_progress = False, questions_answered = None,
      correct_answers = None, incorrect_answers = None, test_questions = None,
      current_question = None, test_correct_answer = None, current_word = None,
      word_type = None, question_type = None, original_ru_word = None\<rparr>"

text \<open>\<open>data.get(key, default)\<close> on a key of the state.\<close>

definition data_get :: "'a option \<Rightarrow> 'a \<Rightarrow> 'a" where
  "data_get field dflt = (case field of None \<Rightarrow> dflt | Some v \<Rightarrow> v)"

text \<open>The truth value of an identifier: \<open>None\<close> and \<open>0\<close> are false.\<close>

definition truthy :: "int option \<Rightarrow> bool" where
  "truthy v = (case v of None \<Rightarrow> False | Some i \<Rightarrow> i \<noteq> 0)"

text \<open>The fixed parts of the two question texts.\<close>

definition txt_translate_word :: pystr where
  "txt_translate_word =
     [1055, 1077, 1088, 1077, 1074, 1077, 1076, 1080, 1090, 1077, 32,
      1089, 1083, 1086, 1074, 1086, 58, 32]"

definition txt_how_is :: pystr where
  "txt_how_is = [1050, 1072, 1082, 32, 1073, 1091, 1076, 1077, 1090, 32, 39]"

definition txt_in_english :: pystr where
  "txt_in_english =
     [39, 32, 1087, 1086, 45, 1072, 1085, 1075, 1083, 1080, 1081, 1089, 1082, 1080, 63]"

text \<open>
  \<open>start_learning_test\<close>. The two calls of \<open>random.choice\<close> take their random numbers
  \<open>r_word\<close> and \<open>r_type\<close> as arguments: a choice from a sequence of length \<open>n\<close> is the
  element at \<open>r mod n\<close>. The result is the pair \<open>(question, correct_answer)\<close>, or
  \<open>None\<close> where the source returns \<open>(None, None, None)\<close>; the keyboard is not modelled.
\<close>

definition start_learning_test ::
  "(pystr \<Rightarrow> pystr) \<Rightarrow> xml_entries \<Rightarrow> nat \<Rightarrow> nat \<Rightarrow> int \<Rightarrow> database \<times> fsm_data
     \<Rightarrow> (pystr \<times> pystr) option \<times> database \<times> fsm_data" where
  "start_learning_test lower entries r_word r_type user_id st =
     (let (db, data) = st;
          started =
            (if \<not> test_in_progress data
             then (case db_create_test_session user_id db of
                     (new_id, db1) \<Rightarrow>
                       if \<not> truthy new_id then Inl db1
                       else Inr (db1,
                              data\<lparr>test_id := new_id, test_in_progress := True,
                                   questions_answered := Some 0, correct_answers := Some 0,
                                   incorrect_answers := Some 0, test_questions := Some []\<rparr>))
             else Inr (db, data))
      in case started of
           Inl db1 \<Rightarrow> (None, db1, data)
         | Inr (db1, data1) \<Rightarrow>
             (let user_words = db_get_user_words user_id db1;
                  default_words = db_get_default_words 12 db1;
                  xml_words = load_words_from_xml lower entries;
                  pool = all_words user_words default_words xml_words
              in if pool = [] then (None, db1, data1)
                 else
                   (let (en_word, ru_word) = pool ! (r_word mod length pool);
                        wtype = (if (en_word, ru_word) \<in> set user_words then WordUser
                                 else if (en_word, ru_word) \<in> set default_words then WordDefault
                                 else WordXml);
                        qtype = [en_to_ru, ru_to_en] ! (r_type mod 2);
                        (question, correct_answer) =
                          (if qtype = en_to_ru then (txt_translate_word @ en_word, ru_word)
                           else (txt_how_is @ ru_word @ txt_in_english, en_word))
                    in (Some (question, correct_answer), db1,
                        data1\<lparr>current_question := Some question,
                              test_correct_answer := Some correct_answer,
                              current_word := Some en_word, word_type := Some wtype,
                              question_type := Some qtype,
                              original_ru_word := Some ru_word\<rparr>))))"

text \<open>
  \<open>_get_possible_translations\<close>: the alternatives of the dictionary entry, split on
  commas (U+002C), trimmed and lowercased, and the stored translations, lowercased; blank
  ones are left out. The result is \<open>list(translations)\<close> of a set.
\<close>

definition get_possible_translations ::
  "(pystr \<Rightarrow> pystr) \<Rightarrow> (pystr \<rightharpoonup> pystr) \<Rightarrow> database \<Rightarrow> pystr \<Rightarrow> int \<Rightarrow> pystr list" where
  "get_possible_translations lower translation_dict db word user_id =
     (let from_dictionary =
            (if is_in_dictionary lower translation_dict word
             then (case translate_word lower translation_dict word of
                     None \<Rightarrow> []
                   | Some translated \<Rightarrow>
                       if translated = [] then []
                       else map (\<lambda>t. lower (py_strip t))
                              (filter (\<lambda>t. py_strip t \<noteq> []) (py_split 44 translated)))
             else []);
          db_translations = db_get_possible_translations lower word user_id db;
          from_db = map lower (filter (\<lambda>t. py_strip t \<noteq> []) db_translations)
      in remdups (from_dictionary @ from_db))"

text \<open>\<open>_check_answer\<close>: the verdict and the translations the feedback lists.\<close>

definition check_answer ::
  "(pystr \<Rightarrow> pystr) \<Rightarrow> (pystr \<rightharpoonup> pystr) \<Rightarrow> database \<Rightarrow> pystr \<Rightarrow> pystr \<Rightarrow> question_kind \<Rightarrow> pystr \<Rightarrow> int
     \<Rightarrow> bool \<times> pystr list" where
  "check_answer lower translation_dict db user_answer correct_answer qtype word user_id =
     (if qtype = ru_to_en then (user_answer = correct_answer, [correct_answer])
      else (let possible_translations =
                  get_possible_translations lower translation_dict db word user_id
            in (user_answer \<in> set possible_translations, possible_translations)))"

text \<open>
  \<open>update_user_progress\<close> writes to the table \<open>user_progress\<close> only, which
  \<open>initialize_database\<close> does not create: its insert fails, the method logs the error, and
  no modelled table changes.
\<close>

definition db_update_user_progress :: "int \<Rightarrow> pystr \<Rightarrow> word_kind \<Rightarrow> bool \<Rightarrow> database \<Rightarrow> database" where
  "db_update_user_progress user_id word wtype is_correct db = db"

text \<open>
  \<open>_save_test_results\<close>: the counters are read from the state with default 0 and written
  back incremented; the result row is handed to the store, whose answer is not looked at.
\<close>

definition save_test_results ::
  "int \<Rightarrow> int \<Rightarrow> pystr \<Rightarrow> word_kind \<Rightarrow> pystr \<Rightarrow> pystr \<Rightarrow> bool \<Rightarrow> database \<times> fsm_data
     \<Rightarrow> database \<times> fsm_data" where
  "save_test_results tid user_id word wtype correct_answer user_answer is_correct st =
     (let (db, data) = st;
          qa = data_get (questions_answered data) 0 + 1;
          ca = data_get (correct_answers data) 0 + (if is_correct then 1 else 0);
          ia = data_get (incorrect_answers data) 0 + (if is_correct then 0 else 1);
          db1 = snd (db_add_test_result tid word correct_answer user_answer is_correct db);
          db2 = db_update_user_progress user_id word wtype is_correct db1;
          tqs = data_get (test_questions data) [] @
                  [\<lparr>tq_question = data_get (current_question data) [],
                    tq_correct_answer = correct_answer, tq_user_answer = user_answer,
                    tq_is_correct = is_correct\<rparr>]
      in (db2, data\<lparr>questions_answered := Some qa, correct_answers := Some ca,
                    incorrect_answers := Some ia, test_questions := Some tqs\<rparr>))"

text \<open>
  \<open>handle_test_response\<close>. With no session identifier in the state the source raises
  \<open>ValueError\<close> and its \<open>except\<close> branch returns \<open>False\<close> with an error text: that is
  \<open>ResponseError\<close>, and nothing is stored. Otherwise the result is the verdict with the
  translations the feedback text is made of.
\<close>

datatype response = Response bool "pystr list" | ResponseError

definition handle_test_response ::
  "(pystr \<Rightarrow> pystr) \<Rightarrow> (pystr \<rightharpoonup> pystr) \<Rightarrow> int \<Rightarrow> pystr \<Rightarrow> pystr \<Rightarrow> database \<times> fsm_data
     \<Rightarrow> response \<times> database \<times> fsm_data" where
  "handle_test_response lower translation_dict user_id user_answer correct_answer st =
     (let (db, data) = st
      in if \<not> truthy (test_id data) then (ResponseError, db, data)
         else
           (let tid = the (test_id data);
                wtype = data_get (word_type data) WordDefault;
                qtype = data_get (question_type data) en_to_ru;
                word = data_get (current_word data) [];
                ua = normalize_answer lower user_answer;
                correct_answer_lower = lower correct_answer;
                (is_correct, possible_translations) =
                  check_answer lower translation_dict db ua correct_answer_lower qtype word user_id;
                (db1, data1) =
                  save_test_results tid user_id word wtype correct_answer ua is_correct (db, data)
            in (Response is_correct possible_translations, db1, data1)))"

text \<open>
  \<open>get_user_test_stats\<close> is read for the results message only. Its \<open>AVG(correct_answers)\<close>
  is \<open>NULL\<close> when no session of the user has a count, and the message formats it with
  \<open>:.1f\<close>, which raises \<open>TypeError\<close> on \<open>None\<close>.
\<close>

definition db_avg_score_defined :: "int \<Rightarrow> database \<Rightarrow> bool" where
  "db_avg_score_defined user_id db =
     list_ex (\<lambda>t. t_user_id t = user_id \<and> t_correct_answers t \<noteq> None) (tbl_tests db)"

text \<open>
  \<open>end_test_and_show_results\<close>: with a session identifier in the state, the counters of
  the state are written to the session's row; then the message is formatted, the
  leaderboard is updated and the state is cleared. The result is \<open>True\<close> for the results
  message and \<open>False\<close> for the error message of the \<open>except\<close> branch, which is taken when
  the identifier is missing and when the message cannot be formatted. The text of the
  message is not modelled.
\<close>

definition end_test_and_show_results :: "int \<Rightarrow> database \<times> fsm_data \<Rightarrow> bool \<times> database \<times> fsm_data" where
  "end_test_and_show_results user_id st =
     (let (db, data) = st
      in if \<not> truthy (test_id data) then (False, db, data)
         else
           (let tid = the (test_id data);
                qa = data_get (questions_answered data) 0;
                ca = data_get (correct_answers data) 0;
                ia = data_get (incorrect_answers data) 0;
                db1 = snd (db_update_test_session tid qa ca ia db)
            in if \<not> db_avg_score_defined user_id db1 then (False, db1, data)
               else (True, db_update_leaderboard user_id ca ia db1, state_clear)))"

section \<open>The quiz handlers (bot.py)\<close>

text \<open>
  \<open>start_test_handler\<close> asks the first question; \<open>test_answer_handler\<close> checks one
  answer (the text of the message, trimmed) against \<open>data['test_correct_answer']\<close> and
  asks the next question, ending the quiz when there is none; \<open>end_test_handler\<close> ends
  the quiz. An answer carries the two random numbers of the question that follows it.
  The dispatcher, which routes a message to its handler by the state of the conversation,
  is not modelled: the handlers are applied in the order of a quiz.
\<close>

definition start_test_handler ::
  "(pystr \<Rightarrow> pystr) \<Rightarrow> xml_entries \<Rightarrow> nat \<Rightarrow> nat \<Rightarrow> int \<Rightarrow> database \<times> fsm_data \<Rightarrow> database \<times> fsm_data" where
  "start_test_handler lower entries r_word r_type user_id st =
     snd (start_learning_test lower entries r_word r_type user_id st)"

definition test_answer_handler ::
  "(pystr \<Rightarrow> pystr) \<Rightarrow> xml_entries \<Rightarrow> int \<Rightarrow> pystr \<times> nat \<times> nat \<Rightarrow> database \<times> fsm_data \<Rightarrow> database \<times> fsm_data" where
  "test_answer_handler lower entries user_id msg st =
     (let (text, r_word, r_type) = msg;
          (db, data) = st
      in if \<not> test_in_progress data then st
         else (case test_correct_answer data of
                 None \<Rightarrow> (db, state_clear)
               | Some correct_answer \<Rightarrow>
                   (let st1 = snd (handle_test_response lower (load_dictionary lower entries) user_id
                                    (py_strip text) correct_answer st)
                    in case start_learning_test lower entries r_word r_type user_id st1 of
                         (None, st2) \<Rightarrow>
                           (fst (snd (end_test_and_show_results user_id st2)), state_clear)
                       | (Some q, st2) \<Rightarrow> st2)))"

definition end_test_handler :: "int \<Rightarrow> database \<times> fsm_data \<Rightarrow> database \<times> fsm_data" where
  "end_test_handler user_id st =
     (fst (snd (end_test_and_show_results user_id st)), state_clear)"

text \<open>A quiz session: the first question, the answers in turn, the end.\<close>

definition quiz_session ::
  "(pystr \<Rightarrow> pystr) \<Rightarrow> xml_entries \<Rightarrow> int \<Rightarrow> nat \<Rightarrow> nat \<Rightarrow> (pystr \<times> nat \<times> nat) list \<Rightarrow> database \<times> fsm_data
     \<Rightarrow> database \<times> fsm_data" where
  "quiz_session lower entries user_id r_word r_type answers st =
     end_test_handler user_id
       (foldl (\<lambda>s msg. test_answer_handler lower entries user_id msg s)
          (start_test_handler lower entries r_word r_type user_id st) answers)"

section \<open>Words used in the examples\<close>

text \<open>
  The code points of the words the examples below are stated on: \<open>hello\<close>, \<open>Hello\<close>,
  \<open>privet\<close> and \<open>zdravstvuyte\<close> (two Russian words for hello), \<open>excuse\<close>, \<open>sori\<close> (a key
  of the typo table), \<open>good\<close> with \<open>khorosho\<close> and \<open>dobryy\<close> (and the dictionary text \<open>khorosho, dobryy\<close>
  that lists both, with a comma and a space between), \<open>cat\<close> and \<open>tomcat\<close> with
  \<open>kot\<close>.
\<close>

text \<open>
  The examples are on strings of Basic Latin characters (U+0000..U+007F) and characters
  of the Cyrillic block U+0400..U+045F. Of these characters \<open>str.lower()\<close> changes the
  capitals \<open>A..Z\<close> (to U+0061..U+007A), U+0400..U+040F (to U+0450..U+045F) and
  U+0410..U+042F (to U+0430..U+044F), and on a string of such characters it works
  character by character. \<open>lower_ru_en\<close> does this; it stands for \<open>str.lower()\<close> in the
  examples only, and is not a model of \<open>str.lower()\<close> on other strings.
\<close>

definition lower_ru_en_cp :: "nat \<Rightarrow> nat" where
  "lower_ru_en_cp c =
     (if 65 \<le> c \<and> c \<le> 90 then c + 32
      else if 1040 \<le> c \<and> c \<le> 1071 then c + 32
      else if 1024 \<le> c \<and> c \<le> 1039 then c + 80
      else c)"

definition lower_ru_en :: "pystr \<Rightarrow> pystr" where
  "lower_ru_en s = map lower_ru_en_cp s"

definition w_hello :: pystr where
  "w_hello = [104, 101, 108, 108, 111]"

definition w_Hello :: pystr where
  "w_Hello = [72, 101, 108, 108, 111]"

definition w_privet :: pystr where
  "w_privet = [1087, 1088, 1080, 1074, 1077, 1090]"

definition w_zdravstvuyte :: pystr where
  "w_zdravstvuyte = [1079, 1076, 1088, 1072, 1074, 1089, 1090, 1074, 1091, 1081, 1090, 1077]"

definition w_excuse :: pystr where
  "w_excuse = [101, 120, 99, 117, 115, 101]"

definition w_sori :: pystr where
  "w_sori = [1089, 1086, 1088, 1080]"

definition w_good :: pystr where
  "w_good = [103, 111, 111, 100]"

definition w_khorosho :: pystr where
  "w_khorosho = [1093, 1086, 1088, 1086, 1096, 1086]"

definition w_dobryy :: pystr where
  "w_dobryy = [1076, 1086, 1073, 1088, 1099, 1081]"

definition w_khorosho_dobryy :: pystr where
  "w_khorosho_dobryy =
     [1093, 1086, 1088, 1086, 1096, 1086, 44, 32, 1076, 1086, 1073, 1088, 1099, 1081]"

definition w_cat :: pystr where
  "w_cat = [99, 97, 116]"

definition w_tomcat :: pystr where
  "w_tomcat = [116, 111, 109, 99, 97, 116]"

definition w_kot :: pystr where
  "w_kot = [1082, 1086, 1090]"

definition db_user7 :: database where
  "db_user7 = db_add_user 7 initialize_database"

definition db_good :: database where
  "db_good = snd (db_add_user_word lower_ru_en 7 w_good w_dobryy (db_add_user 7 initialize_database))"


definition db_excuse :: database where
  "db_excuse = snd (db_add_user_word lower_ru_en 7 w_excuse w_sori (db_add_user 7 initialize_database))"

definition data_excuse :: fsm_data where
  "data_excuse =
     state_clear\<lparr>test_id := Some 1, test_in_progress := True, questions_answered := Some 0,
       correct_answers := Some 0, incorrect_answers := Some 0, test_questions := Some [],
       current_question := Some (txt_translate_word @ w_excuse),
       test_correct_answer := Some w_sori, current_word := Some w_excuse,
       word_type := Some WordUser, question_type := Some en_to_ru,
       original_ru_word := Some w_sori\<rparr>"

definition db_no_words :: database where
  "db_no_words = (db_add_user 7 initialize_database)\<lparr>tbl_default_words := []\<rparr>"

section \<open>Predicates of the statements\<close>

text \<open>The constraint \<open>UNIQUE(user_id, english_word)\<close> of \<open>user_words\<close>, and the rows of
  \<open>user_words\<close> a user has under a key.\<close>

definition user_words_unique :: "database \<Rightarrow> bool" where
  "user_words_unique db =
     distinct (map (\<lambda>r. (uw_user_id r, uw_english_word r)) (tbl_user_words db))"

definition rows_of_key :: "int \<Rightarrow> pystr \<Rightarrow> database \<Rightarrow> user_word_row list" where
  "rows_of_key user_id k db =
     filter (\<lambda>r. uw_user_id r = user_id \<and> uw_english_word r = k) (tbl_user_words db)"

text \<open>\<open>sep.join(pieces)\<close>, for a one-character separator: the inverse of \<open>split\<close>.\<close>

fun py_join :: "nat \<Rightarrow> pystr list \<Rightarrow> pystr" where
  "py_join sep [] = []"
| "py_join sep [p] = p"
| "py_join sep (p # q # ps) = p @ sep # py_join sep (q # ps)"

text \<open>
  The identifiers of sessions come from the serial sequence of \<open>tests\<close>, and
  \<open>test_results\<close> references \<open>tests\<close>: in a store reached from \<open>initialize_database\<close> the
  sequence is not negative and no session identifier in either table is beyond it.
\<close>

definition db_wf :: "database \<Rightarrow> bool" where
  "db_wf db =
     (0 \<le> tests_test_id_seq db \<and>
      list_all (\<lambda>t. t_test_id t \<le> tests_test_id_seq db) (tbl_tests db) \<and>
      list_all (\<lambda>r. tr_test_id r \<le> tests_test_id_seq db) (tbl_test_results db))"

text \<open>The pool of question words of a user, as \<open>start_learning_test\<close> computes it.\<close>

definition quiz_pool ::
  "(pystr \<Rightarrow> pystr) \<Rightarrow> xml_entries \<Rightarrow> int \<Rightarrow> database \<Rightarrow> (pystr \<times> pystr) list" where
  "quiz_pool lower entries user_id db =
     all_words (db_get_user_words user_id db) (db_get_default_words 12 db)
       (load_words_from_xml lower entries)"

text \<open>The counts stored for a session: the correct and incorrect answers of its rows in
  \<open>tests\<close>.\<close>

definition stored_counts :: "int \<Rightarrow> database \<Rightarrow> (int option \<times> int option) list" where
  "stored_counts tid db =
     map (\<lambda>t. (t_correct_answers t, t_incorrect_answers t))
       (filter (\<lambda>t. t_test_id t = tid) (tbl_tests db))"

text \<open>
  The state of a running quiz with session \<open>tid\<close>, started on the store \<open>db0\<close>, after \<open>n\<close>
  answers: the identifier is an \<open>INT\<close>, the session has its one row in \<open>tests\<close> and \<open>n\<close>
  rows in \<open>test_results\<close>, the
  counters of the state add up to \<open>n\<close>, the word and the expected answer of the open
  question are accepted by the 100-character columns, and the word tables are those of
  \<open>db0\<close>.
\<close>

definition session_inv :: "int \<Rightarrow> database \<Rightarrow> nat \<Rightarrow> database \<times> fsm_data \<Rightarrow> bool" where
  "session_inv tid db0 n st =
     (test_in_progress (snd st) \<and> test_id (snd st) = Some tid \<and> tid \<noteq> 0 \<and> pg_int4 tid \<and>
      length (filter (\<lambda>t. t_test_id t = tid) (tbl_tests (fst st))) = 1 \<and>
      tbl_users (fst st) = tbl_users db0 \<and>
      tbl_user_words (fst st) = tbl_user_words db0 \<and>
      tbl_default_words (fst st) = tbl_default_words db0 \<and>
      length (db_get_test_results tid (fst st)) = n \<and>
      questions_answered (snd st) = Some (int n) \<and>
      (\<exists>c i. correct_answers (snd st) = Some c \<and> incorrect_answers (snd st) = Some i \<and>
             0 \<le> c \<and> 0 \<le> i \<and> c + i = int n) \<and>
      (\<exists>w a. current_word (snd st) = Some w \<and> test_correct_answer (snd st) = Some a \<and>
             pg_varchar 100 w \<noteq> None \<and> pg_varchar 100 a \<noteq> None))"

text \<open>The counters of the state, read with their default 0 as the source reads them:
  the answered questions are the correct and the incorrect ones.\<close>

definition counters_consistent :: "fsm_data \<Rightarrow> bool" where
  "counters_consistent data =
     (data_get (questions_answered data) 0 =
        data_get (correct_answers data) 0 + data_get (incorrect_answers data) 0)"

section \<open>Properties of the string functions\<close>

text \<open>Trimming a trimmed string changes nothing.\<close>

lemma py_rstrip_Cons: "\<not> isspace c \<Longrightarrow> py_rstrip (c # t) = c # py_rstrip t"
  by (simp add: py_rstrip_def dropWhile_append3)

lemma py_rstrip_idem: "py_rstrip (py_rstrip s) = py_rstrip s"
  by (simp add: py_rstrip_def)

lemma py_lstrip_rstrip_lstrip: "py_lstrip (py_rstrip (py_lstrip s)) = py_rstrip (py_lstrip s)"
proof (cases "py_lstrip s")
  case Nil
  have e: "py_rstrip [] = []" "py_lstrip [] = []"
    by (simp_all add: py_rstrip_def py_lstrip_def)
  show ?thesis unfolding Nil e ..
next
  case (Cons c t)
  then have "\<not> isspace c"
    unfolding py_lstrip_def by (metis hd_dropWhile list.sel(1) list.distinct(1))
  then show ?thesis
    using Cons by (simp add: py_rstrip_Cons) (simp add: py_lstrip_def)
qed

lemma py_strip_idem: "py_strip (py_strip s) = py_strip s"
  by (simp add: py_strip_def py_lstrip_rstrip_lstrip py_rstrip_idem)

text \<open>
  Splitting: no piece holds the separator, there is one piece more than there are
  separators, and joining the pieces with the separator gives the string back.
\<close>

lemma py_split_not_Nil: "py_split sep s \<noteq> []"
  by (induction s) (auto split: list.splits)

lemma py_split_no_sep: "p \<in> set (py_split sep s) \<Longrightarrow> sep \<notin> set p"
proof (induction s arbitrary: p)
  case Nil
  then show ?case by simp
next
  case (Cons c s)
  obtain q qs where qs: "py_split sep s = q # qs"
    using py_split_not_Nil [of sep s] by (cases "py_split sep s") auto
  show ?case
  proof (cases "c = sep")
    case True
    then have "p = [] \<or> p \<in> set (py_split sep s)"
      using Cons.prems by simp
    then show ?thesis using Cons.IH by auto
  next
    case False
    then have "p = c # q \<or> p \<in> set qs"
      using Cons.prems qs by simp
    moreover have "sep \<notin> set q" "\<And>p. p \<in> set qs \<Longrightarrow> sep \<notin> set p"
      using Cons.IH qs by simp_all
    ultimately show ?thesis using False by auto
  qed
qed

lemma length_py_split: "length (py_split sep s) = Suc (count_list s sep)"
  by (induction s) (auto split: list.splits)

lemma py_join_py_split: "py_join sep (py_split sep s) = s"
proof (induction s)
  case Nil
  show ?case by simp
next
  case (Cons c s)
  obtain p ps where ps: "py_split sep s = p # ps"
    using py_split_not_Nil [of sep s] by (cases "py_split sep s") auto
  show ?case
    using Cons ps by (cases ps) auto
qed

text \<open>The stand-in of the examples has the properties of \<open>str.lower()\<close> that the theorems
  below assume: it is idempotent, and it keeps a trimmed string trimmed.\<close>

lemma lower_ru_en_cp_idem: "lower_ru_en_cp (lower_ru_en_cp c) = lower_ru_en_cp c"
  by (simp add: lower_ru_en_cp_def)

lemma lower_ru_en_idem: "lower_ru_en (lower_ru_en s) = lower_ru_en s"
  by (simp add: lower_ru_en_def lower_ru_en_cp_idem)

lemma isspace_lower_ru_en_cp: "isspace (lower_ru_en_cp c) = isspace c"
  by (auto simp: isspace_def lower_ru_en_cp_def whitespace_code_points_def)

lemma py_strip_lower_ru_en: "py_strip (lower_ru_en s) = lower_ru_en (py_strip s)"
  by (simp add: py_strip_def py_lstrip_def py_rstrip_def lower_ru_en_def rev_map
      dropWhile_map comp_def isspace_lower_ru_en_cp)

lemma lower_ru_en_trimmed:
  "py_strip (lower_ru_en (py_strip s)) = lower_ru_en (py_strip s)"
  by (simp add: py_strip_lower_ru_en py_strip_idem)

lemmas string_defs =
  py_strip_def py_lstrip_def py_rstrip_def isspace_def whitespace_code_points_def
  lower_ru_en_def lower_ru_en_cp_def

section \<open>Answer normalization is idempotent\<close>

text \<open>A value of the typo table is trimmed and is not a key of the table.\<close>

lemma typo_values_plain:
  "list_all (\<lambda>(k, v). py_strip v = v \<and> map_of ALLOWED_TYPOS v = None) ALLOWED_TYPOS"
  by (simp add: ALLOWED_TYPOS_def py_strip_def py_lstrip_def py_rstrip_def isspace_def
      whitespace_code_points_def)

lemma typo_value_plain:
  "(k, v) \<in> set ALLOWED_TYPOS \<Longrightarrow> py_strip v = v \<and> map_of ALLOWED_TYPOS v = None"
  using typo_values_plain by (auto simp: list_all_iff)

text \<open>
  Claim C7. Trimming, lowercasing and one lookup in the typo table, applied to its own
  result, changes nothing: for every string \<open>s\<close>, normalizing \<open>normalize_answer s\<close> gives
  \<open>normalize_answer s\<close> again. The proof uses three facts about \<open>str.lower()\<close>: it is
  idempotent, it keeps a trimmed string trimmed, and it leaves the values of the typo
  table, which are written in small letters, as they are.
\<close>

theorem normalize_answer_idempotent:
  assumes "\<forall>s. lower (lower s) = lower s"
    and "\<forall>s. py_strip (lower (py_strip s)) = lower (py_strip s)"
    and "\<forall>(k, v) \<in> set ALLOWED_TYPOS. lower v = v"
  shows "normalize_answer lower (normalize_answer lower s) = normalize_answer lower s"
proof (cases "map_of ALLOWED_TYPOS (lower (py_strip s))")
  case None
  have "lower (py_strip (lower (py_strip s))) = lower (py_strip s)"
    using assms(1,2) by simp
  then show ?thesis
    using None by (simp add: normalize_answer_def dict_get_def)
next
  case (Some v)
  then have mem: "(lower (py_strip s), v) \<in> set ALLOWED_TYPOS"
    by (rule map_of_SomeD)
  then have "py_strip v = v" "map_of ALLOWED_TYPOS v = None"
    using typo_value_plain by blast+
  moreover have "lower v = v"
    using assms(3) mem by blast
  ultimately have "normalize_answer lower v = v"
    by (simp add: normalize_answer_def dict_get_def)
  moreover have "normalize_answer lower s = v"
    using Some by (simp add: normalize_answer_def dict_get_def)
  ultimately show ?thesis by simp
qed

text \<open>The typed answer \<open>" Sori "\<close> (capital Cyrillic Es, spaces around) becomes \<open>sorry\<close>, and
  stays \<open>sorry\<close>.\<close>

theorem normalize_answer_idempotent_witness:
  "normalize_answer lower_ru_en [32, 1057, 1086, 1088, 1080, 32] = [115, 111, 114, 114, 121] \<and>
   normalize_answer lower_ru_en (normalize_answer lower_ru_en [32, 1057, 1086, 1088, 1080, 32])
     = [115, 111, 114, 114, 121]"
proof -
  have vals: "\<forall>(k, v) \<in> set ALLOWED_TYPOS. lower_ru_en v = v"
    by (simp add: ALLOWED_TYPOS_def lower_ru_en_def lower_ru_en_cp_def)
  have "normalize_answer lower_ru_en [32, 1057, 1086, 1088, 1080, 32] = [115, 111, 114, 114, 121]"
    by (simp add: normalize_answer_def dict_get_def ALLOWED_TYPOS_def string_defs)
  then show ?thesis
    using normalize_answer_idempotent [of lower_ru_en "[32, 1057, 1086, 1088, 1080, 32]"]
      lower_ru_en_idem lower_ru_en_trimmed vals
    by simp
qed

section \<open>The pool of question words\<close>

lemma map_of_dict_setitem: "map_of (dict_setitem k v d) = (map_of d)(k \<mapsto> v)"
  by (induction d) (auto simp: fun_eq_iff)

lemma keys_dict_setitem:
  "map fst (dict_setitem k v d) = (if k \<in> fst ` set d then map fst d else map fst d @ [k])"
  by (induction d) force+

lemma set_dict_setitem_fst:
  "\<forall>e \<in> set d. fst (snd e) = fst e \<Longrightarrow> e' \<in> set (dict_setitem (fst w) w d)
     \<Longrightarrow> fst (snd e') = fst e'"
  by (induction d) (auto split: if_splits)

lemma word_dict_snoc: "word_dict (ws @ [w]) = dict_setitem (fst w) w (word_dict ws)"
  by (simp add: word_dict_def)

lemma word_dict_keyed: "e \<in> set (word_dict ws) \<Longrightarrow> fst (snd e) = fst e"
proof (induction ws arbitrary: e rule: rev_induct)
  case Nil
  then show ?case by (simp add: word_dict_def)
next
  case (snoc w ws)
  then show ?case
    using set_dict_setitem_fst [of "word_dict ws" e w] by (auto simp: word_dict_snoc)
qed

lemma keys_word_dict: "map fst (word_dict ws) = rev (remdups (rev (map fst ws)))"
proof (induction ws rule: rev_induct)
  case Nil
  then show ?case by (simp add: word_dict_def)
next
  case (snoc w ws)
  have "fst ` set (word_dict ws) = set (map fst (word_dict ws))" by simp
  also have "\<dots> = fst ` set ws" using snoc by simp
  finally show ?case
    using snoc by (simp add: word_dict_snoc keys_dict_setitem)
qed

lemma map_of_word_dict: "map_of (word_dict ws) k = map_option (Pair k) (map_of (rev ws) k)"
proof (induction ws rule: rev_induct)
  case Nil
  then show ?case by (simp add: word_dict_def)
next
  case (snoc w ws)
  then show ?case
    by (cases w) (simp add: word_dict_snoc map_of_dict_setitem)
qed

lemma map_of_values:
  "\<forall>e \<in> set d. fst (snd e) = fst e \<Longrightarrow> map_of (map snd d) k = map_option snd (map_of d k)"
  by (induction d) auto

text \<open>
  Claim C1, as the code has it. The pool holds one pair for each english key of
  \<open>user_words + default_words + xml_words\<close>, the keys standing in the order of their
  first occurrence; the pair kept for a key is the last pair with that key in the
  concatenation (\<open>map_of\<close> on the reversed list finds the last one), not the first.
\<close>

theorem all_words_last_occurrence:
  "map fst (all_words user_words default_words xml_words) =
     rev (remdups (rev (map fst (user_words @ default_words @ xml_words)))) \<and>
   map_of (all_words user_words default_words xml_words) k =
     map_of (rev (user_words @ default_words @ xml_words)) k"
proof -
  let ?ws = "user_words @ default_words @ xml_words"
  have pool: "all_words user_words default_words xml_words = map snd (word_dict ?ws)"
    by (simp add: all_words_def dict_values_def)
  have keyed: "\<forall>e \<in> set (word_dict ?ws). fst (snd e) = fst e"
    using word_dict_keyed by blast
  have "map fst (map snd (word_dict ?ws)) = map fst (word_dict ?ws)"
    using keyed by simp
  then have keys: "map fst (all_words user_words default_words xml_words) =
      rev (remdups (rev (map fst ?ws)))"
    by (simp only: pool keys_word_dict)
  have "map_of (map snd (word_dict ?ws)) k = map_option snd (map_of (word_dict ?ws) k)"
    using keyed by (rule map_of_values)
  also have "\<dots> = map_of (rev ?ws) k"
    by (simp add: map_of_word_dict option.map_comp comp_def option.map_ident)
  finally show ?thesis using keys pool by simp
qed

text \<open>A user who has added \<open>hello - zdravstvuyte\<close>, with \<open>hello - privet\<close> among the default
  words: the pool has the key \<open>hello\<close> once, with the default pair.\<close>

theorem all_words_last_occurrence_witness:
  "map fst (all_words [(w_hello, w_zdravstvuyte)] [(w_hello, w_privet)] []) = [w_hello] \<and>
   map_of (all_words [(w_hello, w_zdravstvuyte)] [(w_hello, w_privet)] []) w_hello =
     Some w_privet"
  using all_words_last_occurrence
    [of "[(w_hello, w_zdravstvuyte)]" "[(w_hello, w_privet)]" "[]" w_hello]
  by simp

text \<open>The claim as the spec words it (the first pair with the key is kept) fails on the
  same input: the first pair with the key \<open>hello\<close> in the concatenation is the user's, the
  pool holds the default one.\<close>

theorem all_words_first_occurrence_counterexample:
  "map_of ([(w_hello, w_zdravstvuyte)] @ [(w_hello, w_privet)] @ []) w_hello =
     Some w_zdravstvuyte \<and>
   all_words [(w_hello, w_zdravstvuyte)] [(w_hello, w_privet)] [] = [(w_hello, w_privet)] \<and>
   w_zdravstvuyte \<noteq> w_privet"
  by (simp add: all_words_def dict_values_def word_dict_def w_hello_def w_privet_def
      w_zdravstvuyte_def)

section \<open>The percentage of the results message\<close>

text \<open>
  Claim C10. The percentage never divides by zero: whatever the counters are, the result
  is not \<open>ZeroDivisionError\<close>; with zero answered questions it is 0, and with a positive
  number of them it is \<open>round((correct_answers / questions_answered) * 100)\<close>, computed by
  the float operations.
\<close>

theorem percentage_total:
  "percentage fdiv fmul fround q c \<noteq> Inl ZeroDivisionError \<and>
   percentage fdiv fmul fround 0 c = Inr 0 \<and>
   (0 < q \<longrightarrow> percentage fdiv fmul fround q c = Inr (fround (fmul (fdiv c q) 100)))"
  by (simp add: percentage_def py_truediv_def)

text \<open>With the exact quotient \<open>(a, b)\<close> standing for the float \<open>a / b\<close>, and rounding of
  it to the nearest integer: 3 correct answers of 4 are 75 percent, none of none is 0.\<close>

theorem percentage_total_witness:
  "percentage (\<lambda>a b. (a, b)) (\<lambda>(a, b) n. (a * n, b)) (\<lambda>(a, b). (2 * a + b) div (2 * b)) 4 3
     = Inr 75 \<and>
   percentage (\<lambda>a b. (a, b)) (\<lambda>(a, b) n. (a * n, b)) (\<lambda>(a, b). (2 * a + b) div (2 * b)) 0 0
     = Inr 0"
  using
    percentage_total [of "\<lambda>a b. (a, b)" "\<lambda>(a, b) n. (a * n, b)"
      "\<lambda>(a, b). (2 * a + b) div (2 * b)" 4 3]
    percentage_total [of "\<lambda>a b. (a, b)" "\<lambda>(a, b) n. (a * n, b)"
      "\<lambda>(a, b). (2 * a + b) div (2 * b)" 0 0]
  by simp

section \<open>The counters of the state\<close>




text \<open>The first question of a quiz starts the counters at zero.\<close>

lemma start_learning_test_counters:
  assumes "\<not> test_in_progress data"
    and "start_learning_test lower entries rw rt uid (db, data) = (Some q, db', data')"
  shows "counters_consistent data'"
  using assms
  by (auto simp: start_learning_test_def counters_consistent_def data_get_def Let_def
      split: prod.splits if_splits)

section \<open>Checking an answer\<close>

lemma set_db_get_possible_translations:
  "set (db_get_possible_translations lower word uid db) =
      {t. (lower word, t) \<in> set (tbl_default_words db) \<or>
          \<lparr>uw_user_id = uid, uw_english_word = lower word,
            uw_russian_translation = t\<rparr> \<in> set (tbl_user_words db)}"
proof (intro set_eqI iffI)
  fix t assume "t \<in> set (db_get_possible_translations lower word uid db)"
  then consider "(lower word, t) \<in> set (tbl_default_words db)"
    | r where "r \<in> set (tbl_user_words db)" "uw_user_id r = uid"
        "uw_english_word r = lower word" "t = uw_russian_translation r"
    by (auto simp: db_get_possible_translations_def)
  then show "t \<in> {t. (lower word, t) \<in> set (tbl_default_words db) \<or>
          \<lparr>uw_user_id = uid, uw_english_word = lower word,
            uw_russian_translation = t\<rparr> \<in> set (tbl_user_words db)}"
  proof cases
    case 1
    then show ?thesis by simp
  next
    case 2
    have "\<lparr>uw_user_id = uid, uw_english_word = lower word,
            uw_russian_translation = t\<rparr> = r"
      using 2 by auto
    then show ?thesis using 2(1) by simp
  qed
next
  fix t assume "t \<in> {t. (lower word, t) \<in> set (tbl_default_words db) \<or>
          \<lparr>uw_user_id = uid, uw_english_word = lower word,
            uw_russian_translation = t\<rparr> \<in> set (tbl_user_words db)}"
  then show "t \<in> set (db_get_possible_translations lower word uid db)"
    by (force simp: db_get_possible_translations_def image_iff)
qed

lemma set_from_dictionary:
  "set (if is_in_dictionary lower d word
        then (case translate_word lower d word of
                None \<Rightarrow> []
              | Some translated \<Rightarrow>
                  if translated = [] then []
                  else map (\<lambda>t. lower (py_strip t))
                         (filter (\<lambda>t. py_strip t \<noteq> []) (py_split 44 translated)))
        else []) =
   (case d (lower (py_strip word)) of
      None \<Rightarrow> {}
    | Some translated \<Rightarrow>
        {lower (py_strip t) | t. t \<in> set (py_split 44 translated) \<and> py_strip t \<noteq> []})"
proof (cases "d (lower (py_strip word))")
  case None
  then show ?thesis by (simp add: is_in_dictionary_def)
next
  case (Some translated)
  have e: "py_strip [] = []" by (simp add: py_strip_def py_lstrip_def py_rstrip_def)
  show ?thesis
  proof (cases "translated = []")
    case True
    then show ?thesis using Some by (simp add: is_in_dictionary_def translate_word_def e)
  next
    case False
    then show ?thesis using Some by (auto simp: is_in_dictionary_def translate_word_def)
  qed
qed

lemma set_get_possible_translations:
  "set (get_possible_translations lower d db word uid) =
     (case d (lower (py_strip word)) of
        None \<Rightarrow> {}
      | Some translated \<Rightarrow>
          {lower (py_strip t) | t. t \<in> set (py_split 44 translated) \<and> py_strip t \<noteq> []})
     \<union> {lower t | t. py_strip t \<noteq> [] \<and>
           ((lower word, t) \<in> set (tbl_default_words db) \<or>
            \<lparr>uw_user_id = uid, uw_english_word = lower word,
              uw_russian_translation = t\<rparr> \<in> set (tbl_user_words db))}"
proof -
  have from_db: "set (map lower (filter (\<lambda>t. py_strip t \<noteq> [])
        (db_get_possible_translations lower word uid db))) =
      {lower t | t. py_strip t \<noteq> [] \<and>
         ((lower word, t) \<in> set (tbl_default_words db) \<or>
          \<lparr>uw_user_id = uid, uw_english_word = lower word,
            uw_russian_translation = t\<rparr> \<in> set (tbl_user_words db))}"
    by (auto simp: set_db_get_possible_translations)
  show ?thesis
    unfolding get_possible_translations_def Let_def set_remdups set_append
      set_from_dictionary from_db ..
qed

text \<open>
  Claim C4, as the code has it. The check depends on the direction. For a
  russian-to-english question the answer is correct exactly when it equals the expected
  english word. For an english-to-russian question it is correct exactly when it is one
  of the known translations of the word: a piece of the dictionary entry of the word split
  on commas, trimmed and lowercased (blank pieces left out), or a translation stored for
  the word in the default words or in the user's own words, lowercased (blank ones left
  out).
\<close>

theorem check_answer_by_direction:
  "fst (check_answer lower d db ua ca ru_to_en word uid) = (ua = ca) \<and>
   fst (check_answer lower d db ua ca en_to_ru word uid) =
     (ua \<in> (case d (lower (py_strip word)) of
               None \<Rightarrow> {}
             | Some translated \<Rightarrow>
                 {lower (py_strip t) | t.
                    t \<in> set (py_split 44 translated) \<and> py_strip t \<noteq> []})
          \<union> {lower t | t. py_strip t \<noteq> [] \<and>
                ((lower word, t) \<in> set (tbl_default_words db) \<or>
                 \<lparr>uw_user_id = uid, uw_english_word = lower word,
                   uw_russian_translation = t\<rparr> \<in> set (tbl_user_words db))})"
proof -
  have "fst (check_answer lower d db ua ca ru_to_en word uid) = (ua = ca)"
    by (simp add: check_answer_def)
  moreover have "fst (check_answer lower d db ua ca en_to_ru word uid) =
      (ua \<in> set (get_possible_translations lower d db word uid))"
    by (simp add: check_answer_def Let_def)
  ultimately show ?thesis
    by (simp only: set_get_possible_translations)
qed

text \<open>The dictionary text of \<open>good\<close> is \<open>khorosho, dobryy\<close>: its pieces are \<open>khorosho\<close> and
  \<open>dobryy\<close> with a space before it, and the trimmed pieces are the two words.\<close>

lemma good_dictionary:
  "load_dictionary lower_ru_en [(w_good, w_khorosho_dobryy)] (lower_ru_en (py_strip w_good))
     = Some w_khorosho_dobryy"
  "py_split 44 w_khorosho_dobryy = [w_khorosho, 32 # w_dobryy]"
  "py_strip (32 # w_dobryy) = w_dobryy" "lower_ru_en w_dobryy = w_dobryy"
  "py_strip w_khorosho = w_khorosho" "lower_ru_en w_khorosho = w_khorosho"
  "w_dobryy \<noteq> []" "w_khorosho \<noteq> []" "w_khorosho_dobryy \<noteq> []"
  by (simp_all add: load_dictionary_def Let_def w_good_def w_khorosho_dobryy_def w_khorosho_def
      w_dobryy_def string_defs)

lemma db_user7_eval: "db_user7 = initialize_database\<lparr>tbl_users := [7]\<rparr>"
  by (simp add: db_user7_def db_add_user_def initialize_database_def)

lemma db_good_eval:
  "db_good = initialize_database
     \<lparr>tbl_users := [7],
      tbl_user_words := [\<lparr>uw_user_id = 7, uw_english_word = w_good,
                          uw_russian_translation = w_dobryy\<rparr>]\<rparr>"
  by (simp add: db_good_def db_add_user_word_def db_add_user_def initialize_database_def
      pg_varchar_def pg_char_ok_def w_good_def w_dobryy_def lower_ru_en_def lower_ru_en_cp_def)

text \<open>With that dictionary and no stored translation of \<open>good\<close>, the answer \<open>dobryy\<close> to the
  english-to-russian question is correct: it is the second piece of the entry, trimmed.
  With \<open>khorosho\<close> alone in the dictionary and \<open>dobryy\<close> among the user's words it is
  correct too. As the answer to the russian-to-english question for \<open>good\<close> it is not.\<close>

theorem check_answer_by_direction_witness:
  "fst (check_answer lower_ru_en (load_dictionary lower_ru_en [(w_good, w_khorosho_dobryy)])
          db_user7 w_dobryy w_khorosho en_to_ru w_good 7) \<and>
   fst (check_answer lower_ru_en (load_dictionary lower_ru_en [(w_good, w_khorosho)])
          db_good w_dobryy w_khorosho en_to_ru w_good 7) \<and>
   \<not> fst (check_answer lower_ru_en (load_dictionary lower_ru_en [(w_good, w_khorosho_dobryy)])
          db_user7 w_dobryy w_good ru_to_en w_good 7)"
proof -
  have "\<exists>t. w_dobryy = lower_ru_en (py_strip t) \<and>
      t \<in> set (py_split 44 w_khorosho_dobryy) \<and> py_strip t \<noteq> []"
    by (intro exI [of _ "32 # w_dobryy"]) (simp add: good_dictionary)
  moreover have "\<exists>t. w_dobryy = lower_ru_en t \<and> py_strip t \<noteq> [] \<and>
      ((lower_ru_en w_good, t) \<in> set (tbl_default_words db_good) \<or>
       \<lparr>uw_user_id = 7, uw_english_word = lower_ru_en w_good, uw_russian_translation = t\<rparr>
         \<in> set (tbl_user_words db_good))"
    by (intro exI [of _ w_dobryy])
      (simp add: db_good_eval good_dictionary w_good_def lower_ru_en_def lower_ru_en_cp_def,
        simp add: w_dobryy_def string_defs)
  moreover have "w_dobryy \<noteq> w_good"
    by (simp add: w_dobryy_def w_good_def)
  ultimately show ?thesis
    using check_answer_by_direction
      [where lower = lower_ru_en and ua = w_dobryy and word = w_good and db = db_user7
        and d = "load_dictionary lower_ru_en [(w_good, w_khorosho_dobryy)]"]
      check_answer_by_direction
      [where lower = lower_ru_en and ua = w_dobryy and word = w_good and db = db_good
        and uid = 7 and d = "load_dictionary lower_ru_en [(w_good, w_khorosho)]"]
    by (simp add: good_dictionary(1))
qed

text \<open>The claim as the spec words it (membership in the dictionary translation split on
  commas, united with the stored translations) fails on the same input: the answer
  \<open>dobryy\<close> is marked correct, but the pieces of the split are \<open>khorosho\<close> and \<open>dobryy\<close>
  with a space before it, \<open>dobryy\<close> is not among them, and no translation of \<open>good\<close> is
  stored.\<close>

theorem check_answer_raw_split_counterexample:
  "fst (check_answer lower_ru_en (load_dictionary lower_ru_en [(w_good, w_khorosho_dobryy)])
          db_user7 w_dobryy w_khorosho en_to_ru w_good 7) \<and>
   translate_word lower_ru_en (load_dictionary lower_ru_en [(w_good, w_khorosho_dobryy)]) w_good
     = Some w_khorosho_dobryy \<and>
   py_split 44 w_khorosho_dobryy = [w_khorosho, 32 # w_dobryy] \<and>
   w_dobryy \<notin> set (py_split 44 w_khorosho_dobryy) \<and>
   db_get_possible_translations lower_ru_en w_good 7 db_user7 = []"
proof -
  have stored: "db_get_possible_translations lower_ru_en w_good 7 db_user7 = []"
    by (simp add: db_get_possible_translations_def db_user7_eval initialize_database_def
        w_good_def lower_ru_en_def lower_ru_en_cp_def)
  have possible: "get_possible_translations lower_ru_en
      (load_dictionary lower_ru_en [(w_good, w_khorosho_dobryy)]) db_user7 w_good 7
      = [w_khorosho, w_dobryy]"
    using good_dictionary(7-9)
    by (simp add: get_possible_translations_def is_in_dictionary_def translate_word_def
        good_dictionary(1-6) stored) (simp add: w_khorosho_def w_dobryy_def)
  have "w_dobryy \<noteq> w_khorosho" "w_dobryy \<noteq> 32 # w_dobryy"
    by (simp_all add: w_dobryy_def w_khorosho_def)
  then show ?thesis
    by (simp add: check_answer_def possible stored translate_word_def good_dictionary(1,2))
qed

section \<open>Dictionary lookup\<close>

lemma load_dictionary_loop_append:
  "load_dictionary_loop lower (xs @ ys) d =
   load_dictionary_loop lower ys (load_dictionary_loop lower xs d)"
  by (induction xs arbitrary: d) (auto simp: Let_def)

lemma load_dictionary_loop_untouched:
  "\<forall>(e', r') \<in> set ys. lower (py_strip e') \<noteq> k \<and> lower (py_strip r') \<noteq> k \<Longrightarrow>
   load_dictionary_loop lower ys d k = d k"
  by (induction ys arbitrary: d) (auto simp: Let_def)

lemma load_dictionary_unmentioned:
  "\<forall>(e', r') \<in> set entries.
     lower (py_strip e') \<noteq> lower (py_strip q) \<and> lower (py_strip r') \<noteq> lower (py_strip q) \<Longrightarrow>
   translate_word lower (load_dictionary lower entries) q = None"
  by (simp add: translate_word_def load_dictionary_def load_dictionary_loop_untouched)

text \<open>
  Claim C6, as the code has it. A query is translated by the last entry of the file that
  mentions it. For an entry \<open>(e, r)\<close> of the file and a query \<open>q\<close> that, trimmed and
  lowercased, is neither word (trimmed and lowercased) of a later entry: if \<open>q\<close> is \<open>e\<close> up
  to case and surrounding whitespace, looking up \<open>q\<close> gives \<open>r\<close>, and if \<open>q\<close> is \<open>r\<close> up to
  case and surrounding whitespace, looking up \<open>q\<close> gives \<open>e\<close>, both trimmed and lowercased.
  So lookup is symmetric for an entry neither of whose words occurs in a later entry, and
  a word of several entries is looked up in the last of them.
\<close>

theorem translate_word_last_entry:
  assumes "entries = before @ (e, r) # after"
    and "\<forall>(e', r') \<in> set after.
           lower (py_strip e') \<noteq> lower (py_strip q) \<and>
           lower (py_strip r') \<noteq> lower (py_strip q)"
  shows "(lower (py_strip q) = lower (py_strip e) \<longrightarrow>
            translate_word lower (load_dictionary lower entries) q
              = Some (lower (py_strip r))) \<and>
         (lower (py_strip q) = lower (py_strip r) \<longrightarrow>
            translate_word lower (load_dictionary lower entries) q
              = Some (lower (py_strip e)))"
proof -
  let ?e = "lower (py_strip e)" and ?r = "lower (py_strip r)" and ?q = "lower (py_strip q)"
  let ?d = "load_dictionary_loop lower before Map.empty"
  have split: "load_dictionary lower entries =
      load_dictionary_loop lower after ((?d(?r \<mapsto> ?e))(?e \<mapsto> ?r))"
    by (simp add: load_dictionary_def assms(1) load_dictionary_loop_append Let_def)
  have at_q: "load_dictionary lower entries ?q = ((?d(?r \<mapsto> ?e))(?e \<mapsto> ?r)) ?q"
    unfolding split using assms(2) by (rule load_dictionary_loop_untouched)
  show ?thesis
    using at_q by (auto simp: translate_word_def)
qed

text \<open>The dictionary holds \<open>(cat, kot)\<close>, then \<open>(Hello, privet)\<close>, then \<open>(tomcat, kot)\<close>:
  translating \<open>Hello\<close> gives \<open>privet\<close> and translating \<open>privet\<close> gives \<open>hello\<close> (the second
  entry, which no later entry touches), and translating \<open>kot\<close> gives \<open>tomcat\<close> (the last
  entry).\<close>

theorem translate_word_last_entry_witness:
  "translate_word lower_ru_en
     (load_dictionary lower_ru_en [(w_cat, w_kot), (w_Hello, w_privet), (w_tomcat, w_kot)])
     w_Hello = Some w_privet \<and>
   translate_word lower_ru_en
     (load_dictionary lower_ru_en [(w_cat, w_kot), (w_Hello, w_privet), (w_tomcat, w_kot)])
     w_privet = Some w_hello \<and>
   translate_word lower_ru_en
     (load_dictionary lower_ru_en [(w_cat, w_kot), (w_Hello, w_privet), (w_tomcat, w_kot)])
     w_kot = Some w_tomcat"
proof -
  have n: "lower_ru_en (py_strip w_Hello) = w_hello" "lower_ru_en (py_strip w_privet) = w_privet"
    "lower_ru_en (py_strip w_tomcat) = w_tomcat" "lower_ru_en (py_strip w_kot) = w_kot"
    "lower_ru_en (py_strip w_cat) = w_cat"
    by (simp_all add: w_Hello_def w_hello_def w_privet_def w_tomcat_def w_kot_def w_cat_def
        string_defs)
  have d: "w_tomcat \<noteq> w_hello" "w_kot \<noteq> w_hello" "w_tomcat \<noteq> w_privet" "w_kot \<noteq> w_privet"
    by (simp_all add: w_hello_def w_privet_def w_tomcat_def w_kot_def)
  show ?thesis
    using translate_word_last_entry
        [where lower = lower_ru_en and before = "[(w_cat, w_kot)]" and e = w_Hello
          and r = w_privet and after = "[(w_tomcat, w_kot)]" and q = w_Hello,
          OF refl]
      translate_word_last_entry
        [where lower = lower_ru_en and before = "[(w_cat, w_kot)]" and e = w_Hello
          and r = w_privet and after = "[(w_tomcat, w_kot)]" and q = w_privet,
          OF refl]
      translate_word_last_entry
        [where lower = lower_ru_en and before = "[(w_cat, w_kot), (w_Hello, w_privet)]"
          and e = w_tomcat and r = w_kot and after = "[]" and q = w_kot,
          OF refl]
    by (simp add: n d)
qed

text \<open>The claim as the spec words it fails for an entry whose word comes again: with
  \<open>(cat, kot)\<close> and then \<open>(tomcat, kot)\<close> in the file, \<open>cat\<close> is translated to \<open>kot\<close>, but
  \<open>kot\<close> is translated to \<open>tomcat\<close>, not back to \<open>cat\<close>.\<close>

theorem translate_word_symmetric_counterexample:
  "translate_word lower_ru_en (load_dictionary lower_ru_en [(w_cat, w_kot), (w_tomcat, w_kot)])
     w_kot = Some w_tomcat \<and>
   translate_word lower_ru_en (load_dictionary lower_ru_en [(w_cat, w_kot), (w_tomcat, w_kot)])
     w_cat = Some w_kot \<and>
   w_tomcat \<noteq> w_cat"
  by (simp add: translate_word_def load_dictionary_def Let_def w_cat_def w_kot_def w_tomcat_def
      string_defs)

section \<open>The stored translation as an answer\<close>

lemma normalize_answer_plain:
  "py_strip t = t \<Longrightarrow> map_of ALLOWED_TYPOS (lower t) = None \<Longrightarrow>
   normalize_answer lower t = lower t"
  by (simp add: normalize_answer_def dict_get_def)

text \<open>
  Claim C8, as the code has it. For an english-to-russian question on a word that has the
  translation \<open>t\<close> stored in the default words or in the user's own words, the answer \<open>t\<close>
  is marked correct when \<open>t\<close> is not empty, has no whitespace at its ends, and its
  lowercase form is not a key of the typo table; then the normalized answer is the
  lowercase form of \<open>t\<close>, which the possible translations contain.
\<close>

theorem own_translation_accepted:
  assumes "(lower word, t) \<in> set (tbl_default_words db) \<or>
           \<lparr>uw_user_id = uid, uw_english_word = lower word, uw_russian_translation = t\<rparr>
             \<in> set (tbl_user_words db)"
    and "t \<noteq> []" and "py_strip t = t" and "map_of ALLOWED_TYPOS (lower t) = None"
  shows "fst (check_answer lower d db (normalize_answer lower t) ca en_to_ru word uid)"
proof -
  have "lower t \<in> set (get_possible_translations lower d db word uid)"
    unfolding set_get_possible_translations using assms(1,2,3) by auto
  then show ?thesis
    by (simp add: check_answer_def Let_def normalize_answer_plain assms(3,4))
qed

text \<open>User 7 has stored \<open>good - dobryy\<close>; the answer \<open>dobryy\<close> is correct.\<close>

theorem own_translation_accepted_witness:
  "fst (check_answer lower_ru_en Map.empty db_good (normalize_answer lower_ru_en w_dobryy)
          w_dobryy en_to_ru w_good 7)"
proof -
  have "lower_ru_en w_good = w_good" "w_dobryy \<noteq> []" "py_strip w_dobryy = w_dobryy"
    "map_of ALLOWED_TYPOS (lower_ru_en w_dobryy) = None"
    by (simp_all add: w_good_def w_dobryy_def string_defs ALLOWED_TYPOS_def)
  then show ?thesis
    using own_translation_accepted
      [where lower = lower_ru_en and word = w_good and t = w_dobryy and db = db_good
        and uid = 7 and d = Map.empty and ca = w_dobryy]
    by (simp add: db_good_eval)
qed

lemma db_excuse_eval:
  "db_excuse = initialize_database
     \<lparr>tbl_users := [7],
      tbl_user_words := [\<lparr>uw_user_id = 7, uw_english_word = w_excuse,
                          uw_russian_translation = w_sori\<rparr>]\<rparr>"
  by (simp add: db_excuse_def db_add_user_word_def db_add_user_def initialize_database_def
      pg_varchar_def pg_char_ok_def w_excuse_def w_sori_def lower_ru_en_def lower_ru_en_cp_def)

text \<open>The claim as stated fails when the stored translation is a key of the typo table.
  User 7 has stored \<open>excuse - sori\<close> and is asked for the Russian of \<open>excuse\<close>; the answer
  \<open>sori\<close>, the stored translation itself, is normalized to \<open>sorry\<close> and marked incorrect,
  the only possible translation being \<open>sori\<close>.\<close>

theorem own_translation_rejected_counterexample:
  "\<lparr>uw_user_id = 7, uw_english_word = w_excuse, uw_russian_translation = w_sori\<rparr>
     \<in> set (tbl_user_words db_excuse) \<and>
   fst (handle_test_response lower_ru_en Map.empty 7 w_sori w_sori (db_excuse, data_excuse))
     = Response False [w_sori]"
  by (simp add: db_excuse_eval handle_test_response_def data_excuse_def state_clear_def truthy_def
      data_get_def check_answer_def get_possible_translations_def is_in_dictionary_def
      db_get_possible_translations_def initialize_database_def normalize_answer_def dict_get_def
      ALLOWED_TYPOS_def save_test_results_def Let_def w_excuse_def w_sori_def string_defs)

section \<open>Adding a user word twice\<close>

text \<open>The store after \<open>initialize_database\<close> has the uniqueness of \<open>user_words\<close>, and
  \<open>add_user\<close> and \<open>add_user_word\<close> preserve it.\<close>

lemma user_words_unique_initialize_database: "user_words_unique initialize_database"
  by (simp add: user_words_unique_def initialize_database_def)

lemma user_words_unique_add_user:
  "user_words_unique db \<Longrightarrow> user_words_unique (db_add_user uid db)"
  by (simp add: user_words_unique_def db_add_user_def)

lemma user_words_unique_add_user_word:
  "user_words_unique db \<Longrightarrow> user_words_unique (snd (db_add_user_word lower uid e t db))"
  by (auto simp: user_words_unique_def db_add_user_word_def list_ex_iff split: option.splits)

lemma distinct_key_filter_le:
  "distinct (map f xs) \<Longrightarrow> length (filter (\<lambda>x. f x = k) xs) \<le> 1"
proof (induction xs)
  case Nil
  then show ?case by simp
next
  case (Cons x xs)
  show ?case
  proof (cases "f x = k")
    case True
    then have "k \<notin> f ` set xs" using Cons.prems by auto
    then have "filter (\<lambda>x. f x = k) xs = []" by (auto simp: filter_empty_conv)
    then show ?thesis using True by simp
  next
    case False
    then show ?thesis using Cons by simp
  qed
qed

lemma rows_of_key_unique:
  assumes "user_words_unique db"
    and "list_ex (\<lambda>r. uw_user_id r = uid \<and> uw_english_word r = k) (tbl_user_words db)"
  shows "length (rows_of_key uid k db) = 1"
proof -
  have eq: "rows_of_key uid k db =
      filter (\<lambda>r. (uw_user_id r, uw_english_word r) = (uid, k)) (tbl_user_words db)"
    by (simp add: rows_of_key_def)
  have "length (rows_of_key uid k db) \<le> 1"
    unfolding eq using assms(1) unfolding user_words_unique_def
    by (rule distinct_key_filter_le)
  moreover have "rows_of_key uid k db \<noteq> []"
    using assms(2) by (auto simp: rows_of_key_def list_ex_iff filter_empty_conv)
  ultimately show ?thesis by (cases "rows_of_key uid k db") auto
qed

lemma pg_varchar_fits: "length s \<le> n \<Longrightarrow> list_all pg_char_ok s \<Longrightarrow> pg_varchar n s = Some s"
  by (simp add: pg_varchar_def)

text \<open>
  Claim C5, as the code has it. In a store that keeps \<open>UNIQUE(user_id, english_word)\<close>,
  for a user who is a row of \<open>users\<close> and a pair whose two words, lowercased, have at most
  255 characters and no character that the store refuses: after adding the pair and then
  adding an english word with the same lowercase form again, with any translation, the
  user has exactly one row under the lowercased key; the second add returns \<open>False\<close> and
  leaves the store as it was; if the first add returned \<open>True\<close> the row holds the
  lowercased key with the lowercased first translation, and if it returned \<open>False\<close> it
  changed nothing either.
\<close>

theorem add_user_word_twice:
  assumes "user_words_unique db" and "uid \<in> set (tbl_users db)"
    and "length (lower e1) \<le> 255" and "list_all pg_char_ok (lower e1)"
    and "length (lower t1) \<le> 255" and "list_all pg_char_ok (lower t1)"
    and "lower e2 = lower e1"
    and "db_add_user_word lower uid e1 t1 db = (ok1, db1)"
    and "db_add_user_word lower uid e2 t2 db1 = (ok2, db2)"
  shows "\<not> ok2 \<and> db2 = db1 \<and> length (rows_of_key uid (lower e1) db2) = 1 \<and>
         (ok1 \<longrightarrow> rows_of_key uid (lower e1) db2 =
            [\<lparr>uw_user_id = uid, uw_english_word = lower e1,
              uw_russian_translation = lower t1\<rparr>]) \<and>
         (\<not> ok1 \<longrightarrow> db1 = db)"
proof -
  let ?k = "lower e1"
  let ?has = "\<lambda>d. list_ex (\<lambda>r. uw_user_id r = uid \<and> uw_english_word r = ?k) (tbl_user_words d)"
  have fit: "pg_varchar 255 ?k = Some ?k" "pg_varchar 255 (lower t1) = Some (lower t1)"
    using assms(3-6) by (simp_all add: pg_varchar_fits)
  have second: "?has db1 \<Longrightarrow> \<not> ok2 \<and> db2 = db1"
    using assms(9) by (auto simp: db_add_user_word_def assms(7) fit split: option.splits)
  show ?thesis
  proof (cases "?has db")
    case True
    then have first: "\<not> ok1" "db1 = db"
      using assms(8) by (auto simp: db_add_user_word_def fit)
    then have "\<not> ok2 \<and> db2 = db1" using second True by simp
    moreover have "length (rows_of_key uid ?k db) = 1"
      using assms(1) True by (rule rows_of_key_unique)
    ultimately show ?thesis using first by simp
  next
    case False
    then have first: "ok1"
      "db1 = db\<lparr>tbl_user_words := tbl_user_words db @
         [\<lparr>uw_user_id = uid, uw_english_word = ?k, uw_russian_translation = lower t1\<rparr>]\<rparr>"
      using assms(2,8) by (auto simp: db_add_user_word_def fit)
    have none: "filter (\<lambda>r. uw_user_id r = uid \<and> uw_english_word r = ?k) (tbl_user_words db) = []"
      using False by (auto simp: list_ex_iff filter_empty_conv)
    have rows: "rows_of_key uid ?k db1 =
        [\<lparr>uw_user_id = uid, uw_english_word = ?k, uw_russian_translation = lower t1\<rparr>]"
      by (simp add: rows_of_key_def first(2) none)
    have "?has db1" by (simp add: first(2))
    then have "\<not> ok2 \<and> db2 = db1" by (rule second)
    then show ?thesis using first(1) rows by simp
  qed
qed

text \<open>User 7 adds \<open>Hello - privet\<close> and then \<open>hello - zdravstvuyte\<close>: the second add is
  refused, and the one row is \<open>hello - privet\<close>.\<close>

theorem add_user_word_twice_witness:
  "fst (db_add_user_word lower_ru_en 7 w_Hello w_privet (db_add_user 7 initialize_database)) \<and>
   \<not> fst (db_add_user_word lower_ru_en 7 w_hello w_zdravstvuyte
            (snd (db_add_user_word lower_ru_en 7 w_Hello w_privet
                   (db_add_user 7 initialize_database)))) \<and>
   rows_of_key 7 w_hello
     (snd (db_add_user_word lower_ru_en 7 w_hello w_zdravstvuyte
            (snd (db_add_user_word lower_ru_en 7 w_Hello w_privet
                   (db_add_user 7 initialize_database)))))
     = [\<lparr>uw_user_id = 7, uw_english_word = w_hello, uw_russian_translation = w_privet\<rparr>]"
proof -
  let ?db = "db_add_user 7 initialize_database"
  obtain ok1 db1 where a1: "db_add_user_word lower_ru_en 7 w_Hello w_privet ?db = (ok1, db1)"
    by (cases "db_add_user_word lower_ru_en 7 w_Hello w_privet ?db")
  obtain ok2 db2 where a2: "db_add_user_word lower_ru_en 7 w_hello w_zdravstvuyte db1 = (ok2, db2)"
    by (cases "db_add_user_word lower_ru_en 7 w_hello w_zdravstvuyte db1")
  have low: "lower_ru_en w_Hello = w_hello" "lower_ru_en w_hello = w_hello"
    "lower_ru_en w_privet = w_privet"
    by (simp_all add: w_Hello_def w_hello_def w_privet_def lower_ru_en_def lower_ru_en_cp_def)
  have uniq: "user_words_unique ?db"
    by (intro user_words_unique_add_user user_words_unique_initialize_database)
  have user: "7 \<in> set (tbl_users ?db)"
    by (simp add: db_add_user_def initialize_database_def)
  have e1: "length (lower_ru_en w_Hello) \<le> 255" "list_all pg_char_ok (lower_ru_en w_Hello)"
    by (simp_all add: w_Hello_def pg_char_ok_def lower_ru_en_def lower_ru_en_cp_def)
  have t1: "length (lower_ru_en w_privet) \<le> 255" "list_all pg_char_ok (lower_ru_en w_privet)"
    by (simp_all add: w_privet_def pg_char_ok_def lower_ru_en_def lower_ru_en_cp_def)
  have same: "lower_ru_en w_hello = lower_ru_en w_Hello"
    by (simp add: low)
  have fits: "pg_varchar 255 w_hello = Some w_hello" "pg_varchar 255 w_privet = Some w_privet"
    by (simp_all add: pg_varchar_def pg_char_ok_def w_hello_def w_privet_def)
  have "ok1"
    using a1 by (auto simp: db_add_user_word_def db_add_user_def initialize_database_def
        low fits)
  then show ?thesis
    using add_user_word_twice [OF uniq user e1 t1 same a1 a2] a1 a2 by (auto simp: low)
qed

text \<open>The claim as stated, for every word pair, fails for a word that does not fit its
  column: an english word of 256 letters \<open>a\<close> is refused by both adds, and no row is
  stored under its key.\<close>

theorem add_user_word_twice_counterexample:
  "rows_of_key 7 (lower_ru_en (replicate 256 97))
     (snd (db_add_user_word lower_ru_en 7 (replicate 256 97) w_kot
            (snd (db_add_user_word lower_ru_en 7 (replicate 256 97) w_kot
                   (db_add_user 7 initialize_database))))) = []"
proof -
  have "lower_ru_en (replicate 256 97) = replicate 256 97"
    by (simp add: lower_ru_en_def lower_ru_en_cp_def)
  then have "pg_varchar 255 (lower_ru_en (replicate 256 97)) = None"
    by (simp add: pg_varchar_def pg_char_ok_def list_all_iff)
  then have "db_add_user_word lower_ru_en 7 (replicate 256 97) w_kot db = (False, db)" for db
    by (simp add: db_add_user_word_def)
  then show ?thesis
    by (simp add: rows_of_key_def db_add_user_def initialize_database_def)
qed

section \<open>Starting a quiz without words\<close>

lemma all_words_empty: "all_words [] [] [] = []"
  by (simp add: all_words_def dict_values_def word_dict_def)

text \<open>
  Claim C2, as the code has it. When the user has no words, the default words are empty
  and the dictionary gives no pair, \<open>start_learning_test\<close> returns no question. The
  session is created before the words are read: unless a quiz is in progress in the state
  or the user is not a row of \<open>users\<close>, the table \<open>tests\<close> has gained the new session's
  row, and the state says that a quiz is in progress.
\<close>

theorem start_learning_test_no_words:
  assumes "db_get_user_words uid db = []" and "tbl_default_words db = []"
    and "load_words_from_xml lower entries = []"
  shows "fst (start_learning_test lower entries rw rt uid (db, data)) = None \<and>
    tbl_tests (fst (snd (start_learning_test lower entries rw rt uid (db, data)))) =
      (if test_in_progress data \<or> uid \<notin> set (tbl_users db) then tbl_tests db
       else tbl_tests db @
         [\<lparr>t_test_id = tests_test_id_seq db + 1, t_user_id = uid, t_total_questions = None,
           t_correct_answers = None, t_incorrect_answers = None\<rparr>]) \<and>
    test_in_progress (snd (snd (start_learning_test lower entries rw rt uid (db, data)))) =
      (test_in_progress data \<or> (uid \<in> set (tbl_users db) \<and> tests_test_id_seq db + 1 \<noteq> 0))"
proof -
  have words: "db_get_user_words uid (snd (db_create_test_session uid db)) = []"
    "db_get_default_words 12 (snd (db_create_test_session uid db)) = []"
    "db_get_default_words 12 db = []"
    using assms(1,2)
    by (simp_all add: db_create_test_session_def db_get_user_words_def db_get_default_words_def
        Let_def)
  show ?thesis
  proof (cases "test_in_progress data")
    case True
    then show ?thesis
      by (simp add: start_learning_test_def assms words all_words_empty)
  next
    case False
    obtain new_id db1 where c: "db_create_test_session uid db = (new_id, db1)"
      by (cases "db_create_test_session uid db")
    have w1: "db_get_user_words uid db1 = []" "db_get_default_words 12 db1 = []"
      using words c by simp_all
    have r: "start_learning_test lower entries rw rt uid (db, data) =
        (None, db1, if truthy new_id
           then data\<lparr>test_id := new_id, test_in_progress := True,
                  questions_answered := Some 0, correct_answers := Some 0,
                  incorrect_answers := Some 0, test_questions := Some []\<rparr>
           else data)"
      using False by (simp add: start_learning_test_def c w1 assms(3) all_words_empty)
    show ?thesis
      unfolding r using c False
      by (auto simp: db_create_test_session_def Let_def truthy_def split: if_splits)
  qed
qed

lemma db_no_words_eval:
  "db_no_words = initialize_database\<lparr>tbl_users := [7], tbl_default_words := []\<rparr>"
  by (simp add: db_no_words_def db_add_user_def initialize_database_def)

text \<open>User 7, registered, with no word in any table and an empty dictionary, starts a
  quiz: no question, session 1 created.\<close>

theorem start_learning_test_no_words_witness:
  "fst (start_learning_test lower_ru_en [] 0 0 7 (db_no_words, state_clear)) = None \<and>
   tbl_tests (fst (snd (start_learning_test lower_ru_en [] 0 0 7 (db_no_words, state_clear)))) =
     [\<lparr>t_test_id = 1, t_user_id = 7, t_total_questions = None,
       t_correct_answers = None, t_incorrect_answers = None\<rparr>] \<and>
   test_in_progress (snd (snd (start_learning_test lower_ru_en [] 0 0 7 (db_no_words, state_clear))))"
proof -
  have "db_get_user_words 7 db_no_words = []" "tbl_default_words db_no_words = []"
    "load_words_from_xml lower_ru_en [] = []"
    by (simp_all add: db_no_words_eval db_get_user_words_def initialize_database_def
        load_words_from_xml_def)
  from start_learning_test_no_words [OF this, of 0 0 state_clear] show ?thesis
    by (simp add: db_no_words_eval initialize_database_def state_clear_def)
qed

text \<open>The claim as stated (no session record is created) fails on the same input: the
  table of sessions was empty and is not empty afterwards.\<close>

theorem start_learning_test_no_words_counterexample:
  "fst (start_learning_test lower_ru_en [] 0 0 7 (db_no_words, state_clear)) = None \<and>
   tbl_tests db_no_words = [] \<and>
   tbl_tests (fst (snd (start_learning_test lower_ru_en [] 0 0 7 (db_no_words, state_clear)))) \<noteq> []"
  by (simp add: db_no_words_eval initialize_database_def state_clear_def start_learning_test_def
      db_create_test_session_def truthy_def db_get_user_words_def db_get_default_words_def
      load_words_from_xml_def all_words_empty Let_def)

section \<open>The counts stored for a session\<close>

text \<open>The store after \<open>initialize_database\<close> keeps its session identifiers within the
  sequence, and every method of the store that the quiz calls preserves this.\<close>

lemma db_wf_initialize_database: "db_wf initialize_database"
  by (simp add: db_wf_def initialize_database_def)

lemma db_wf_add_user: "db_wf db \<Longrightarrow> db_wf (db_add_user uid db)"
  by (simp add: db_wf_def db_add_user_def)

lemma db_wf_add_user_word: "db_wf db \<Longrightarrow> db_wf (snd (db_add_user_word lower uid e t db))"
  by (auto simp: db_wf_def db_add_user_word_def split: option.splits)

lemma db_wf_create_test_session: "db_wf db \<Longrightarrow> db_wf (snd (db_create_test_session uid db))"
  by (auto simp: db_wf_def db_create_test_session_def Let_def list_all_iff)

lemma db_wf_add_test_result:
  "db_wf db \<Longrightarrow> db_wf (snd (db_add_test_result tid w c u ok db))"
  by (auto simp: db_wf_def db_add_test_result_def list_all_iff list_ex_iff split: option.splits)

lemma db_wf_update_test_session:
  "db_wf db \<Longrightarrow> db_wf (snd (db_update_test_session tid q c i db))"
  by (auto simp: db_wf_def db_update_test_session_def list_all_iff split: if_splits)

lemma db_wf_update_leaderboard: "db_wf db \<Longrightarrow> db_wf (db_update_leaderboard uid c i db)"
  by (simp add: db_wf_def db_update_leaderboard_def)

text \<open>The quiz reads the pool from the word tables only.\<close>

lemma quiz_pool_cong:
  "tbl_user_words db = tbl_user_words db0 \<Longrightarrow> tbl_default_words db = tbl_default_words db0 \<Longrightarrow>
   quiz_pool lower entries uid db = quiz_pool lower entries uid db0"
  by (simp add: quiz_pool_def db_get_user_words_def db_get_default_words_def)

text \<open>The next question of a quiz in progress is a pair of the pool.\<close>

lemma start_learning_test_in_progress:
  assumes "test_in_progress data" and "quiz_pool lower entries uid db \<noteq> []"
    and "quiz_pool lower entries uid db ! (rw mod length (quiz_pool lower entries uid db)) = (en, ru)"
    and "qt = [en_to_ru, ru_to_en] ! (rt mod 2)"
    and "q = (if qt = en_to_ru then txt_translate_word @ en
              else txt_how_is @ ru @ txt_in_english)"
    and "a = (if qt = en_to_ru then ru else en)"
    and "wt = (if (en, ru) \<in> set (db_get_user_words uid db) then WordUser
               else if (en, ru) \<in> set (db_get_default_words 12 db) then WordDefault
               else WordXml)"
  shows "start_learning_test lower entries rw rt uid (db, data) =
      (Some (q, a), db,
       data\<lparr>current_question := Some q, test_correct_answer := Some a,
            current_word := Some en, word_type := Some wt,
            question_type := Some qt, original_ru_word := Some ru\<rparr>)"
  using assms(1,2,3) unfolding assms(4,5,6,7)
  by (simp add: start_learning_test_def quiz_pool_def [symmetric] Let_def)

text \<open>An answer whose row the store accepts adds that row and increments the counters.\<close>

lemma handle_test_response_stores:
  assumes "test_id data = Some tid" and "tid \<noteq> 0"
    and "current_word data = Some w" and "pg_varchar 100 w \<noteq> None"
    and "pg_varchar 100 a \<noteq> None" and "pg_varchar 100 (normalize_answer lower answer) \<noteq> None"
    and "list_ex (\<lambda>t. t_test_id t = tid) (tbl_tests db)" and "pg_int4 tid"
  shows "\<exists>ok ts row tqs.
    tr_test_id row = tid \<and>
    handle_test_response lower d uid answer a (db, data) =
      (Response ok ts,
       db\<lparr>tbl_test_results := tbl_test_results db @ [row]\<rparr>,
       data\<lparr>questions_answered := Some (data_get (questions_answered data) 0 + 1),
            correct_answers := Some (data_get (correct_answers data) 0 + (if ok then 1 else 0)),
            incorrect_answers := Some (data_get (incorrect_answers data) 0 + (if ok then 0 else 1)),
            test_questions := Some tqs\<rparr>)"
proof -
  obtain ok ts where chk:
    "check_answer lower d db (normalize_answer lower answer) (lower a)
       (data_get (question_type data) en_to_ru) w uid = (ok, ts)"
    by (cases "check_answer lower d db (normalize_answer lower answer) (lower a)
       (data_get (question_type data) en_to_ru) w uid")
  obtain w' a' u' where fits: "pg_varchar 100 w = Some w'" "pg_varchar 100 a = Some a'"
    "pg_varchar 100 (normalize_answer lower answer) = Some u'"
    using assms(4,5,6) by auto
  let ?row = "\<lparr>tr_test_id = tid, tr_word = w', tr_correct_answer = a',
                 tr_user_answer = u', tr_is_correct = ok\<rparr>"
  have "handle_test_response lower d uid answer a (db, data) =
      (Response ok ts,
       db\<lparr>tbl_test_results := tbl_test_results db @ [?row]\<rparr>,
       data\<lparr>questions_answered := Some (data_get (questions_answered data) 0 + 1),
            correct_answers := Some (data_get (correct_answers data) 0 + (if ok then 1 else 0)),
            incorrect_answers := Some (data_get (incorrect_answers data) 0 + (if ok then 0 else 1)),
            test_questions := Some (data_get (test_questions data) [] @
                  [\<lparr>tq_question = data_get (current_question data) [],
                    tq_correct_answer = a, tq_user_answer = normalize_answer lower answer,
                    tq_is_correct = ok\<rparr>])\<rparr>)"
    using assms(1,2,3,7,8) chk fits
    by (simp add: handle_test_response_def truthy_def Let_def data_get_def save_test_results_def
        db_add_test_result_def db_update_user_progress_def)
  then show ?thesis by (intro exI [of _ ok] exI [of _ ts] exI [of _ ?row]) auto
qed

lemma start_learning_test_fresh:
  assumes "\<not> test_in_progress data" and "db_create_test_session uid db = (Some tid, db1)"
    and "tid \<noteq> 0"
  shows "start_learning_test lower entries rw rt uid (db, data) =
    start_learning_test lower entries rw rt uid
      (db1, data\<lparr>test_id := Some tid, test_in_progress := True,
                  questions_answered := Some 0, correct_answers := Some 0,
                  incorrect_answers := Some 0, test_questions := Some []\<rparr>)"
  using assms by (simp add: start_learning_test_def truthy_def)

lemma pool_member_fits:
  assumes "list_all (\<lambda>(e, r). pg_varchar 100 e \<noteq> None \<and> pg_varchar 100 r \<noteq> None) pool"
    and "pool \<noteq> []" and "pool ! (rw mod length pool) = (en, ru)"
  shows "pg_varchar 100 en \<noteq> None \<and> pg_varchar 100 ru \<noteq> None"
proof -
  have "rw mod length pool < length pool" using assms(2) by simp
  then have "(en, ru) \<in> set pool" using assms(3) by (metis nth_mem)
  then show ?thesis using assms(1) by (auto simp: list_all_iff)
qed

text \<open>The invariant holds after the first question, is kept by every answer whose row is
  accepted, and gives the stored counts at the end.\<close>

lemma session_inv_start:
  assumes "db_wf db" and "uid \<in> set (tbl_users db)" and "\<not> test_in_progress data"
    and "quiz_pool lower entries uid db \<noteq> []"
    and "list_all (\<lambda>(e, r). pg_varchar 100 e \<noteq> None \<and> pg_varchar 100 r \<noteq> None)
           (quiz_pool lower entries uid db)"
    and "tests_test_id_seq db + 1 \<le> 2147483647"
  shows "session_inv (tests_test_id_seq db + 1) db 0
           (start_test_handler lower entries rw rt uid (db, data))"
proof -
  let ?tid = "tests_test_id_seq db + 1"
  let ?db1 = "db\<lparr>tests_test_id_seq := ?tid,
                  tbl_tests := tbl_tests db @
                    [\<lparr>t_test_id = ?tid, t_user_id = uid, t_total_questions = None,
                      t_correct_answers = None, t_incorrect_answers = None\<rparr>]\<rparr>"
  let ?data1 = "data\<lparr>test_id := Some ?tid, test_in_progress := True,
                  questions_answered := Some 0, correct_answers := Some 0,
                  incorrect_answers := Some 0, test_questions := Some []\<rparr>"
  have create: "db_create_test_session uid db = (Some ?tid, ?db1)"
    using assms(2) by (simp add: db_create_test_session_def Let_def)
  have nz: "?tid \<noteq> 0" using assms(1) by (simp add: db_wf_def)
  have int4: "pg_int4 ?tid" using assms(1,6) by (simp add: db_wf_def pg_int4_def)
  have pool1: "quiz_pool lower entries uid ?db1 = quiz_pool lower entries uid db"
    by (rule quiz_pool_cong) simp_all
  obtain en ru where p: "quiz_pool lower entries uid ?db1 ! (rw mod length (quiz_pool lower entries uid ?db1))
      = (en, ru)"
    by (cases "quiz_pool lower entries uid ?db1 ! (rw mod length (quiz_pool lower entries uid ?db1))")
  have fits: "pg_varchar 100 en \<noteq> None \<and> pg_varchar 100 ru \<noteq> None"
    using pool_member_fits [OF assms(5,4)] p unfolding pool1 by blast
  have old_tests: "filter (\<lambda>t. t_test_id t = ?tid) (tbl_tests db) = []"
    using assms(1) by (auto simp: db_wf_def list_all_iff filter_empty_conv)
  have old_results: "filter (\<lambda>r. tr_test_id r = ?tid) (tbl_test_results db) = []"
    using assms(1) by (auto simp: db_wf_def list_all_iff filter_empty_conv)
  have "start_learning_test lower entries rw rt uid (db, data) =
      start_learning_test lower entries rw rt uid (?db1, ?data1)"
    using assms(3) create nz by (rule start_learning_test_fresh)
  also note start_learning_test_in_progress
    [of ?data1 lower entries uid ?db1 rw en ru, OF _ _ p refl refl refl refl, of rt]
  finally show ?thesis
    using assms(4) pool1 fits nz int4 old_tests old_results
    by (auto simp: session_inv_def start_test_handler_def db_get_test_results_def)
qed

lemma session_inv_answer:
  assumes "session_inv tid db0 n st"
    and "quiz_pool lower entries uid db0 \<noteq> []"
    and "list_all (\<lambda>(e, r). pg_varchar 100 e \<noteq> None \<and> pg_varchar 100 r \<noteq> None)
           (quiz_pool lower entries uid db0)"
    and "pg_varchar 100 (normalize_answer lower (py_strip mtext)) \<noteq> None"
  shows "session_inv tid db0 (Suc n) (test_answer_handler lower entries uid (mtext, rw, rt) st)"
proof -
  obtain db data where st: "st = (db, data)" by (cases st)
  from assms(1) obtain c i w a where inv:
    "test_in_progress data" "test_id data = Some tid" "tid \<noteq> 0"
    "length (filter (\<lambda>t. t_test_id t = tid) (tbl_tests db)) = 1"
    "tbl_users db = tbl_users db0" "tbl_user_words db = tbl_user_words db0"
    "tbl_default_words db = tbl_default_words db0"
    "length (db_get_test_results tid db) = n"
    "questions_answered data = Some (int n)"
    "correct_answers data = Some c" "incorrect_answers data = Some i" "c + i = int n"
    "current_word data = Some w" "test_correct_answer data = Some a"
    "pg_varchar 100 w \<noteq> None" "pg_varchar 100 a \<noteq> None" "pg_int4 tid" "0 \<le> c" "0 \<le> i"
    unfolding session_inv_def st by auto
  have ex: "list_ex (\<lambda>t. t_test_id t = tid) (tbl_tests db)"
  proof -
    have "filter (\<lambda>t. t_test_id t = tid) (tbl_tests db) \<noteq> []" using inv(4) by auto
    then show ?thesis by (auto simp: list_ex_iff filter_empty_conv)
  qed
  from handle_test_response_stores
    [OF inv(2,3,13,15,16) assms(4) ex inv(17), of "load_dictionary lower entries" uid]
  obtain ok ts row tqs where row: "tr_test_id row = tid"
    and h: "handle_test_response lower (load_dictionary lower entries) uid (py_strip mtext) a (db, data) =
      (Response ok ts,
       db\<lparr>tbl_test_results := tbl_test_results db @ [row]\<rparr>,
       data\<lparr>questions_answered := Some (data_get (questions_answered data) 0 + 1),
            correct_answers := Some (data_get (correct_answers data) 0 + (if ok then 1 else 0)),
            incorrect_answers := Some (data_get (incorrect_answers data) 0 + (if ok then 0 else 1)),
            test_questions := Some tqs\<rparr>)"
    by blast
  let ?db1 = "db\<lparr>tbl_test_results := tbl_test_results db @ [row]\<rparr>"
  let ?data1 = "data\<lparr>questions_answered := Some (int n + 1),
            correct_answers := Some (c + (if ok then 1 else 0)),
            incorrect_answers := Some (i + (if ok then 0 else 1)),
            test_questions := Some tqs\<rparr>"
  have h1: "snd (handle_test_response lower (load_dictionary lower entries) uid (py_strip mtext) a (db, data))
      = (?db1, ?data1)"
    using h inv(9,10,11) by (simp add: data_get_def)
  have pool1: "quiz_pool lower entries uid ?db1 = quiz_pool lower entries uid db0"
    by (rule quiz_pool_cong) (simp_all add: inv(6,7))
  obtain en ru where p: "quiz_pool lower entries uid ?db1 ! (rw mod length (quiz_pool lower entries uid ?db1))
      = (en, ru)"
    by (cases "quiz_pool lower entries uid ?db1 ! (rw mod length (quiz_pool lower entries uid ?db1))")
  have fits: "pg_varchar 100 en \<noteq> None \<and> pg_varchar 100 ru \<noteq> None"
    using pool_member_fits [OF assms(3,2)] p unfolding pool1 by blast
  have next_q: "start_learning_test lower entries rw rt uid (?db1, ?data1) =
      (Some (if [en_to_ru, ru_to_en] ! (rt mod 2) = en_to_ru then txt_translate_word @ en
             else txt_how_is @ ru @ txt_in_english,
             if [en_to_ru, ru_to_en] ! (rt mod 2) = en_to_ru then ru else en), ?db1,
       ?data1\<lparr>current_question :=
                 Some (if [en_to_ru, ru_to_en] ! (rt mod 2) = en_to_ru then txt_translate_word @ en
                       else txt_how_is @ ru @ txt_in_english),
               test_correct_answer :=
                 Some (if [en_to_ru, ru_to_en] ! (rt mod 2) = en_to_ru then ru else en),
               current_word := Some en,
               word_type := Some (if (en, ru) \<in> set (db_get_user_words uid ?db1) then WordUser
                                  else if (en, ru) \<in> set (db_get_default_words 12 ?db1)
                                  then WordDefault else WordXml),
               question_type := Some ([en_to_ru, ru_to_en] ! (rt mod 2)),
               original_ru_word := Some ru\<rparr>)"
    by (rule start_learning_test_in_progress [OF _ _ p refl refl refl refl])
      (simp_all add: inv(1) pool1 assms(2))
  have "test_answer_handler lower entries uid (mtext, rw, rt) st =
      snd (start_learning_test lower entries rw rt uid (?db1, ?data1))"
    unfolding st using inv(1,14) by (simp add: test_answer_handler_def h1 next_q)
  then show ?thesis
    unfolding next_q
    using inv fits row
    by (auto simp: session_inv_def db_get_test_results_def)
qed

lemma session_inv_answers:
  assumes "session_inv tid db0 n st"
    and "quiz_pool lower entries uid db0 \<noteq> []"
    and "list_all (\<lambda>(e, r). pg_varchar 100 e \<noteq> None \<and> pg_varchar 100 r \<noteq> None)
           (quiz_pool lower entries uid db0)"
    and "list_all (\<lambda>(mtext, rw, rt). pg_varchar 100 (normalize_answer lower (py_strip mtext)) \<noteq> None)
           answers"
  shows "session_inv tid db0 (n + length answers)
           (foldl (\<lambda>s msg. test_answer_handler lower entries uid msg s) st answers)"
  using assms(1,4)
proof (induction answers arbitrary: n st)
  case Nil
  then show ?case by simp
next
  case (Cons msg answers)
  obtain mtext rw rt where msg: "msg = (mtext, rw, rt)" by (cases msg)
  have "session_inv tid db0 (Suc n) (test_answer_handler lower entries uid msg st)"
    unfolding msg using Cons.prems(1) assms(2,3)
  proof (rule session_inv_answer)
    show "pg_varchar 100 (normalize_answer lower (py_strip mtext)) \<noteq> None"
      using Cons.prems(2) msg by simp
  qed
  then have "session_inv tid db0 (Suc n + length answers)
      (foldl (\<lambda>s msg. test_answer_handler lower entries uid msg s)
         (test_answer_handler lower entries uid msg st) answers)"
    using Cons.prems(2) by (intro Cons.IH) simp_all
  then show ?case by simp
qed

lemma session_inv_end:
  assumes "session_inv tid db0 n st" and "int n \<le> 2147483647"
  shows "\<exists>c i. stored_counts tid (fst (end_test_handler uid st)) = [(Some c, Some i)] \<and>
           c + i = int n \<and>
           length (db_get_test_results tid (fst (end_test_handler uid st))) = n"
proof -
  obtain db data where st: "st = (db, data)" by (cases st)
  from assms(1) obtain c i where inv:
    "test_id data = Some tid" "tid \<noteq> 0"
    "length (filter (\<lambda>t. t_test_id t = tid) (tbl_tests db)) = 1"
    "length (db_get_test_results tid db) = n"
    "questions_answered data = Some (int n)"
    "correct_answers data = Some c" "incorrect_answers data = Some i" "c + i = int n"
    "pg_int4 tid" "0 \<le> c" "0 \<le> i"
    unfolding session_inv_def st by auto
  have int4: "pg_int4 (int n)" "pg_int4 c" "pg_int4 i"
    using inv(8,10,11) assms(2) by (simp_all add: pg_int4_def)
  obtain t where t: "filter (\<lambda>t. t_test_id t = tid) (tbl_tests db) = [t]"
    using inv(3) by (cases "filter (\<lambda>t. t_test_id t = tid) (tbl_tests db)") auto
  have upd: "filter (\<lambda>t. t_test_id t = tid)
       (map (\<lambda>t. if t_test_id t = tid
                 then t\<lparr>t_total_questions := Some q, t_correct_answers := Some c,
                        t_incorrect_answers := Some i\<rparr>
                 else t) ts) =
     map (\<lambda>t. t\<lparr>t_total_questions := Some q, t_correct_answers := Some c,
                 t_incorrect_answers := Some i\<rparr>)
       (filter (\<lambda>t. t_test_id t = tid) ts)" for q and ts :: "test_row list"
    by (induction ts) auto
  have tests: "tbl_tests (fst (end_test_handler uid st)) =
      map (\<lambda>t. if t_test_id t = tid
                then t\<lparr>t_total_questions := Some (int n), t_correct_answers := Some c,
                       t_incorrect_answers := Some i\<rparr>
                else t) (tbl_tests db)"
    and results: "tbl_test_results (fst (end_test_handler uid st)) = tbl_test_results db"
    unfolding st using inv int4
    by (simp_all add: end_test_handler_def end_test_and_show_results_def truthy_def Let_def
        data_get_def db_update_test_session_def db_update_leaderboard_def
        db_avg_score_defined_def)
  have "stored_counts tid (fst (end_test_handler uid st)) = [(Some c, Some i)]"
    by (simp add: stored_counts_def tests upd t)
  moreover have "length (db_get_test_results tid (fst (end_test_handler uid st))) = n"
    using inv(4) by (simp add: db_get_test_results_def results)
  ultimately show ?thesis using inv(8) by blast
qed

text \<open>
  Claim C3, as the code has it. Take a quiz session of a user who is a row of \<open>users\<close>,
  started with no quiz in progress on a store whose session identifiers are within the
  sequence, with a pool that is not empty, the new identifier and the number of answers
  being within the range of an \<open>INT\<close> column. If every word of the pool and every
  normalized answer is accepted by the \<open>VARCHAR(100)\<close> columns of \<open>test_results\<close>, so that
  every result row is written, then after the end of the quiz the session's row in
  \<open>tests\<close> holds a correct and an incorrect count whose sum is the number of rows of
  \<open>test_results\<close> of the session, which is the number of answers given.
\<close>

theorem quiz_session_counts:
  assumes "db_wf db" and "uid \<in> set (tbl_users db)" and "\<not> test_in_progress data"
    and "quiz_pool lower entries uid db \<noteq> []"
    and "list_all (\<lambda>(e, r). pg_varchar 100 e \<noteq> None \<and> pg_varchar 100 r \<noteq> None)
           (quiz_pool lower entries uid db)"
    and "list_all (\<lambda>(mtext, rw, rt).
             pg_varchar 100 (normalize_answer lower (py_strip mtext)) \<noteq> None) answers"
    and "tests_test_id_seq db + 1 \<le> 2147483647"
    and "int (length answers) \<le> 2147483647"
  shows "\<exists>c i.
    stored_counts (tests_test_id_seq db + 1)
      (fst (quiz_session lower entries uid rw rt answers (db, data))) = [(Some c, Some i)] \<and>
    c + i = int (length answers) \<and>
    length (db_get_test_results (tests_test_id_seq db + 1)
              (fst (quiz_session lower entries uid rw rt answers (db, data)))) = length answers"
proof -
  have "session_inv (tests_test_id_seq db + 1) db 0
      (start_test_handler lower entries rw rt uid (db, data))"
    using assms(1-5,7) by (rule session_inv_start)
  then have "session_inv (tests_test_id_seq db + 1) db (0 + length answers)
      (foldl (\<lambda>s msg. test_answer_handler lower entries uid msg s)
         (start_test_handler lower entries rw rt uid (db, data)) answers)"
    using assms(4,5,6) by (rule session_inv_answers)
  from session_inv_end [OF this, of uid] assms(8) show ?thesis
    by (simp add: quiz_session_def)
qed

lemma quiz_pool_user7: "quiz_pool lower_ru_en [] 7 db_user7 = tbl_default_words initialize_database"
  by (simp add: db_user7_eval quiz_pool_def db_get_user_words_def db_get_default_words_def
      load_words_from_xml_def all_words_def word_dict_def dict_values_def initialize_database_def)

text \<open>User 7 takes a quiz on the default words and gives two answers: two rows, and
  counts that add up to two.\<close>

theorem quiz_session_counts_witness:
  "\<exists>c i.
    stored_counts 1
      (fst (quiz_session lower_ru_en [] 7 0 0 [(w_privet, 1, 0), (w_kot, 0, 0)] (db_user7, state_clear)))
      = [(Some c, Some i)] \<and>
    c + i = 2 \<and>
    length (db_get_test_results 1
              (fst (quiz_session lower_ru_en [] 7 0 0 [(w_privet, 1, 0), (w_kot, 0, 0)]
                      (db_user7, state_clear)))) = 2"
proof -
  have wf: "db_wf db_user7"
    unfolding db_user7_def by (intro db_wf_add_user db_wf_initialize_database)
  have pre: "7 \<in> set (tbl_users db_user7)" "\<not> test_in_progress state_clear"
    "quiz_pool lower_ru_en [] 7 db_user7 \<noteq> []"
    "list_all (\<lambda>(e, r). pg_varchar 100 e \<noteq> None \<and> pg_varchar 100 r \<noteq> None)
       (quiz_pool lower_ru_en [] 7 db_user7)"
    unfolding quiz_pool_user7
    by (simp_all add: db_user7_eval initialize_database_def state_clear_def pg_varchar_def
        pg_char_ok_def)
  have ans: "list_all (\<lambda>(mtext, rw, rt). pg_varchar 100 (normalize_answer lower_ru_en (py_strip mtext)) \<noteq> None)
       [(w_privet, 1, 0), (w_kot, 0, 0)]"
    by (simp add: w_privet_def w_kot_def normalize_answer_def dict_get_def ALLOWED_TYPOS_def
        pg_varchar_def pg_char_ok_def string_defs)
  have seq: "tests_test_id_seq db_user7 + 1 = 1"
    by (simp add: db_user7_eval initialize_database_def)
  have rng: "tests_test_id_seq db_user7 + 1 \<le> 2147483647"
    "int (length [(w_privet, 1::nat, 0::nat), (w_kot, 0, 0)]) \<le> 2147483647"
    by (simp_all add: seq)
  from quiz_session_counts [OF wf pre ans rng, of 0 0] seq show ?thesis
    by (simp add: numeral_2_eq_2)
qed

text \<open>An answer of 101 letters \<open>a\<close> is normalized to itself, and the column refuses it.\<close>

lemma long_answer:
  "normalize_answer lower_ru_en (py_strip (replicate 101 97)) = replicate 101 97"
  "pg_varchar 100 (replicate 101 97) = None"
proof -
  have s: "py_strip (replicate 101 97) = replicate 101 97"
    by (simp add: py_strip_def py_lstrip_def py_rstrip_def isspace_def whitespace_code_points_def)
  have l: "lower_ru_en (replicate 101 97) = replicate 101 97"
    by (simp add: lower_ru_en_def lower_ru_en_cp_def)
  have "length k \<noteq> 101" if "k \<in> fst ` set ALLOWED_TYPOS" for k
    using that by (auto simp: ALLOWED_TYPOS_def)
  then have "replicate 101 97 \<notin> fst ` set ALLOWED_TYPOS"
    by (metis length_replicate)
  then have "map_of ALLOWED_TYPOS (replicate 101 97) = None"
    by (simp add: map_of_eq_None_iff)
  then show "normalize_answer lower_ru_en (py_strip (replicate 101 97)) = replicate 101 97"
    by (simp add: normalize_answer_def dict_get_def s l)
  show "pg_varchar 100 (replicate 101 97) = None"
    by (simp add: pg_varchar_def pg_char_ok_def list_all_iff)
qed

text \<open>The claim as stated, for every session, fails when a result row is refused. User 7
  answers the first question with 101 letters \<open>a\<close>: \<open>add_test_result\<close> fails on the
  100-character column and returns \<open>False\<close>, which \<open>_save_test_results\<close> does not look at,
  and the counters go on. After the end the session stores 0 correct and 1 incorrect
  answer, and has no row in \<open>test_results\<close>.\<close>

theorem quiz_session_counts_counterexample:
  "stored_counts 1
     (fst (quiz_session lower_ru_en [] 7 0 0 [(replicate 101 97, 0, 0)] (db_user7, state_clear)))
     = [(Some 0, Some 1)] \<and>
   db_get_test_results 1
     (fst (quiz_session lower_ru_en [] 7 0 0 [(replicate 101 97, 0, 0)] (db_user7, state_clear))) = []"
proof -
  have none: "tbl_user_words initialize_database = []"
    by (simp add: initialize_database_def)
  have pool: "quiz_pool lower_ru_en [] 7 db = tbl_default_words initialize_database"
    if "tbl_user_words db = []" "tbl_default_words db = tbl_default_words initialize_database"
    for db
    using quiz_pool_cong [of db db_user7 lower_ru_en "[]" 7] that quiz_pool_user7
    by (simp add: db_user7_eval none)
  have "length (replicate 101 (97::nat)) \<noteq> length [1087, 1088, 1080, 1074, 1077, 1090::nat]"
    by simp
  then have ne: "replicate 101 (97::nat) \<noteq> [1087, 1088, 1080, 1074, 1077, 1090]"
    by metis
  have possible: "get_possible_translations lower_ru_en (load_dictionary lower_ru_en []) db [104, 101, 108, 108, 111] 7
      = [[1087, 1088, 1080, 1074, 1077, 1090]]"
    if "tbl_user_words db = []" "tbl_default_words db = tbl_default_words initialize_database"
    for db
    using that
    by (simp add: get_possible_translations_def is_in_dictionary_def load_dictionary_def
        db_get_possible_translations_def initialize_database_def string_defs)
  show ?thesis
    using ne
    by (simp add: possible quiz_session_def start_test_handler_def test_answer_handler_def
      end_test_handler_def end_test_and_show_results_def start_learning_test_def
      quiz_pool_def [symmetric] pool handle_test_response_def save_test_results_def
      db_add_test_result_def db_update_user_progress_def check_answer_def
      db_create_test_session_def db_update_test_session_def db_update_leaderboard_def
      db_avg_score_defined_def db_get_test_results_def stored_counts_def long_answer
      db_user7_eval initialize_database_def state_clear_def truthy_def data_get_def Let_def
      pg_varchar_def pg_char_ok_def pg_int4_def)
qed

end
